theory Spec2Isabelle
  imports Complex_Main "HOL-Library.Multiset" "HOL-Library.AList"
begin

section \<open>Python values and exceptions\<close>

text \<open>
  The values that travel through \<open>app.py\<close>: JSON-like data read from the store, form
  fields, message dictionaries. A number is an \<open>int\<close> of any size or a finite \<open>float\<close>
  and is given by its exact value, a real; the floats that are not finite (\<open>inf\<close>,
  \<open>-inf\<close>, \<open>nan\<close>) are values of their own. A \<open>dict\<close> with string keys is an
  association list.
\<close>

datatype nonfinite = PosInf | NegInf | NaN

datatype pyval =
    PNone
  | PBool bool
  | PNum real
  | PSpecial nonfinite
  | PStr string
  | PList "pyval list"
  | PDict "(string \<times> pyval) list"

text \<open>Python truthiness, as used by \<open>if x:\<close> and \<open>not x\<close>.\<close>

fun truthy :: "pyval \<Rightarrow> bool" where
  "truthy PNone = False"
| "truthy (PBool b) = b"
| "truthy (PNum r) = (r \<noteq> 0)"
| "truthy (PSpecial x) = True"
| "truthy (PStr s) = (s \<noteq> [])"
| "truthy (PList xs) = (xs \<noteq> [])"
| "truthy (PDict kvs) = (kvs \<noteq> [])"

text \<open>
  Exceptions. \<open>HTTPException\<close> carries its status code and detail; every other
  exception class (\<open>TypeError\<close>, \<open>ValueError\<close>, a store or network fault, ...) is a
  \<open>PyError\<close> with the name of its class. All of them derive from \<open>Exception\<close>.
\<close>

datatype exn =
    HTTPException nat string
  | PyError string

section \<open>The WebSocket connection manager\<close>

text \<open>
  \<open>ConnectionManager\<close> owns one dictionary, \<open>active_connections\<close>, from client id to
  WebSocket. A WebSocket is identified by a number. What the transport sees is kept
  beside the dictionary: the sockets accepted and the messages handed to \<open>send_json\<close>,
  in order.
\<close>

type_synonym websocket = nat

record ConnectionManager =
  active_connections :: "string \<rightharpoonup> websocket"
  accepted :: "websocket list"
  delivered :: "(websocket \<times> pyval) list"

definition init_manager :: ConnectionManager where
  "init_manager = \<lparr>active_connections = Map.empty, accepted = [], delivered = []\<rparr>"

text \<open>
  \<open>connect\<close>: \<open>await websocket.accept()\<close>, then store the socket under the client id.
  The first argument is what \<open>accept\<close> does in this call: \<open>None\<close> when it returns,
  \<open>Some e\<close> when it raises \<open>e\<close>; then the assignment is not reached.
\<close>

definition connect ::
  "exn option \<Rightarrow> websocket \<Rightarrow> string \<Rightarrow> ConnectionManager \<Rightarrow> (exn + pyval) \<times> ConnectionManager" where
  "connect accept_outcome websocket client_id self =
     (case accept_outcome of
        Some e \<Rightarrow> (Inl e, self)
      | None \<Rightarrow>
          (Inr PNone,
           self\<lparr>accepted := accepted self @ [websocket],
                active_connections := (active_connections self)(client_id \<mapsto> websocket)\<rparr>))"

definition disconnect :: "string \<Rightarrow> ConnectionManager \<Rightarrow> ConnectionManager" where
  "disconnect client_id self =
     (if client_id \<in> dom (active_connections self)
      then self\<lparr>active_connections := (active_connections self)(client_id := None)\<rparr>
      else self)"

text \<open>
  \<open>send_message\<close>: when the client id is registered, \<open>send_json\<close> on its socket; the
  first argument is what \<open>send_json\<close> does (returns, or raises \<open>e\<close>). The method has
  no \<open>return\<close> statement, so it returns \<open>None\<close> on every path that does not raise.
\<close>

definition send_message ::
  "exn option \<Rightarrow> pyval \<Rightarrow> string \<Rightarrow> ConnectionManager \<Rightarrow> (exn + pyval) \<times> ConnectionManager" where
  "send_message send_outcome message client_id self =
     (case active_connections self client_id of
        Some ws \<Rightarrow>
          (case send_outcome of
             Some e \<Rightarrow> (Inl e, self)
           | None \<Rightarrow> (Inr PNone, self\<lparr>delivered := delivered self @ [(ws, message)]\<rparr>))
      | None \<Rightarrow> (Inr PNone, self))"

text \<open>A sequence of registry operations, as the WebSocket endpoint issues them.\<close>

datatype registry_op =
    Connect "exn option" websocket string
  | Disconnect string

fun apply_registry_op :: "registry_op \<Rightarrow> ConnectionManager \<Rightarrow> ConnectionManager" where
  "apply_registry_op (Connect outcome ws cid) self = snd (connect outcome ws cid self)"
| "apply_registry_op (Disconnect cid) self = disconnect cid self"

definition run_registry :: "registry_op list \<Rightarrow> ConnectionManager \<Rightarrow> ConnectionManager" where
  "run_registry ops self = fold apply_registry_op ops self"

text \<open>The handles registered for a client id: the invariant bounds their number by one.\<close>

definition handles_of :: "ConnectionManager \<Rightarrow> string \<Rightarrow> websocket set" where
  "handles_of self client_id = {ws. active_connections self client_id = Some ws}"

section \<open>The background session sweep\<close>

text \<open>
  \<open>startup_event.cleanup_sessions\<close>:
  \<^verbatim>\<open>
  while True:
      await redis_manager.cleanup_expired_sessions()
      await asyncio.sleep(SESSION_CLEANUP_INTERVAL)
  \<close>
  The loop has no \<open>try\<close>. It never returns by itself, so the model runs it against the
  outcomes of the successive calls of \<open>cleanup_expired_sessions\<close> (\<open>None\<close>: the call
  returns, \<open>Some e\<close>: it raises \<open>e\<close>) and gives what the loop has done when these are
  used up: the events in order, and whether the task is still looping or has ended with
  an exception. \<open>ErrorLogged\<close> stands for a call of \<open>logger.error\<close>.
\<close>

datatype loop_event =
    SweepStarted
  | SweepFinished
  | SweepRaised exn
  | Slept real
  | ErrorLogged exn

datatype loop_status = Looping | Ended exn

fun cleanup_sessions :: "real \<Rightarrow> exn option list \<Rightarrow> loop_event list \<times> loop_status" where
  "cleanup_sessions interval [] = ([], Looping)"
| "cleanup_sessions interval (None # outcomes) =
     (case cleanup_sessions interval outcomes of
        (evs, st) \<Rightarrow> ([SweepStarted, SweepFinished, Slept interval] @ evs, st))"
| "cleanup_sessions interval (Some e # outcomes) = ([SweepStarted, SweepRaised e], Ended e)"

definition sweeps_started :: "loop_event list \<Rightarrow> nat" where
  "sweeps_started evs = length (filter (\<lambda>ev. ev = SweepStarted) evs)"

definition errors_logged :: "loop_event list \<Rightarrow> nat" where
  "errors_logged evs = length (filter (\<lambda>ev. case ev of ErrorLogged _ \<Rightarrow> True | _ \<Rightarrow> False) evs)"

text \<open>
  No two sweeps overlap: reading the events in order with a flag for "a sweep is
  running", a sweep starts only when none is running and ends only when one is.
\<close>

fun one_at_a_time :: "bool \<Rightarrow> loop_event list \<Rightarrow> bool" where
  "one_at_a_time busy [] = True"
| "one_at_a_time busy (SweepStarted # evs) = (\<not> busy \<and> one_at_a_time True evs)"
| "one_at_a_time busy (SweepFinished # evs) = (busy \<and> one_at_a_time False evs)"
| "one_at_a_time busy (SweepRaised e # evs) = (busy \<and> one_at_a_time False evs)"
| "one_at_a_time busy (Slept d # evs) = one_at_a_time busy evs"
| "one_at_a_time busy (ErrorLogged e # evs) = one_at_a_time busy evs"

section \<open>Request handlers: collaborators, state and trace\<close>

text \<open>
  The handlers of \<open>app.py\<close> call into modules that are not part of the file:
  \<open>redis_manager\<close>, \<open>redis_storage\<close>, \<open>database\<close>, \<open>chatbot\<close>, \<open>supabase\<close>,
  \<open>session_config\<close>, and the standard library. A handler is modelled over an arbitrary
  state \<open>'s\<close> of these collaborators: each call is a function from the state to its
  outcome (\<open>Inl e\<close>: raises \<open>e\<close>) and the new state. The handler also keeps a trace of
  the calls it makes and of what it logs.
\<close>

type_synonym ('s, 'a) act = "'s \<Rightarrow> (exn + 'a) \<times> 's"

datatype event =
    Called string "pyval list"
  | LogError string "exn option"
  | LogInfo string

type_synonym 's world = "event list \<times> 's"

definition invoke :: "string \<Rightarrow> pyval list \<Rightarrow> ('s, 'a) act \<Rightarrow> ('s world, 'a) act" where
  "invoke name args f w =
     (case f (snd w) of (r, s') \<Rightarrow> (r, (fst w @ [Called name args], s')))"

definition log_error :: "string \<Rightarrow> exn option \<Rightarrow> 's world \<Rightarrow> 's world" where
  "log_error msg e w = (fst w @ [LogError msg e], snd w)"

definition log_info :: "string \<Rightarrow> 's world \<Rightarrow> 's world" where
  "log_info msg w = (fst w @ [LogInfo msg], snd w)"

text \<open>
  Modelled from the spec: the enumerations \<open>TaskType\<close> and \<open>TaskPriority\<close> that
  \<open>app.py\<close> imports from \<open>redis_manager\<close> (section 3, "Task"). \<open>app.py\<close> uses the members
  \<open>VIDEO_PROCESSING\<close>, \<open>VIDEO_ANALYSIS\<close>, \<open>HIGH\<close> and \<open>MEDIUM\<close>; \<open>LOW\<close> is the third
  priority the specification names.
\<close>

datatype TaskType = VIDEO_PROCESSING | VIDEO_ANALYSIS

datatype TaskPriority = HIGH | MEDIUM | LOW

fun TaskType_name :: "TaskType \<Rightarrow> string" where
  "TaskType_name VIDEO_PROCESSING = ''VIDEO_PROCESSING''"
| "TaskType_name VIDEO_ANALYSIS = ''VIDEO_ANALYSIS''"

fun TaskPriority_name :: "TaskPriority \<Rightarrow> string" where
  "TaskPriority_name HIGH = ''HIGH''"
| "TaskPriority_name MEDIUM = ''MEDIUM''"
| "TaskPriority_name LOW = ''LOW''"

text \<open>An uploaded file (\<open>UploadFile\<close>): of it the handlers use \<open>filename\<close> and \<open>read()\<close>.\<close>

record UploadFile =
  filename :: pyval

text \<open>The constants imported from \<open>session_config\<close>.\<close>

record config =
  SESSION_LIFETIME :: real
  SESSION_REFRESH_THRESHOLD :: real
  COOKIE_SECURE :: bool
  COOKIE_HTTPONLY :: bool
  COOKIE_SAMESITE :: string

text \<open>A float: a finite one is given by its exact value.\<close>

datatype pyfloat = Finite real | Special nonfinite

text \<open>
  The collaborators. \<open>time_time\<close> reads the clock of the state. \<open>float_sub x y\<close> is
  Python's \<open>x - y\<close> for a float \<open>x\<close>: \<open>y\<close> is converted to a float and the difference is the
  one of double-precision arithmetic, rounded; it raises \<open>TypeError\<close> when \<open>y\<close> is not a
  number and \<open>OverflowError\<close> when \<open>y\<close> is an \<open>int\<close> too large for a float. \<open>py_str\<close> is
  \<open>str()\<close> (and the formatting of an f-string field), \<open>exc_str\<close> is \<open>str(e)\<close> of an
  exception, \<open>uuid_UUID\<close> is the constructor \<open>uuid.UUID(...)\<close>, which raises on a value
  that is not a well-formed UUID string.
\<close>

record 's deps =
  time_time :: "'s \<Rightarrow> real"
  float_sub :: "real \<Rightarrow> pyval \<Rightarrow> exn + pyfloat"
  py_str :: "pyval \<Rightarrow> string"
  exc_str :: "exn \<Rightarrow> string"
  uuid_UUID :: "pyval \<Rightarrow> exn + pyval"
  validate_session :: "string \<Rightarrow> ('s, bool \<times> pyval) act"
  refresh_session :: "string \<Rightarrow> ('s, bool) act"
  set_session :: "string \<Rightarrow> pyval \<Rightarrow> real \<Rightarrow> ('s, bool) act"
  check_rate_limit :: "string \<Rightarrow> string \<Rightarrow> ('s, bool) act"
  get_cache :: "string \<Rightarrow> ('s, pyval) act"
  set_cache :: "string \<Rightarrow> pyval \<Rightarrow> ('s, pyval) act"
  invalidate_cache :: "string \<Rightarrow> ('s, pyval) act"
  enqueue_task :: "TaskType \<Rightarrow> pyval \<Rightarrow> TaskPriority \<Rightarrow> ('s, pyval) act"
  sign_in_with_password :: "string \<Rightarrow> string \<Rightarrow> ('s, pyval) act"
  get_user_by_email :: "string \<Rightarrow> ('s, pyval) act"
  create_user :: "string \<Rightarrow> ('s, pyval) act"
  token_urlsafe :: "('s, string) act"
  get_chat_history :: "pyval \<Rightarrow> ('s, pyval) act"
  get_video_analysis_history :: "pyval \<Rightarrow> ('s, pyval) act"
  insert_chat_message :: "pyval \<Rightarrow> pyval \<Rightarrow> string \<Rightarrow> ('s, pyval) act"
  insert_video_analysis :: "pyval \<Rightarrow> pyval \<Rightarrow> pyval \<Rightarrow> pyval \<Rightarrow> pyval \<Rightarrow> ('s, pyval) act"
  store_file :: "string \<Rightarrow> pyval \<Rightarrow> ('s, bool) act"
  analyze_video :: "string \<Rightarrow> pyval \<Rightarrow> ('s, pyval \<times> pyval) act"
  chatbot_send_message :: "string \<Rightarrow> ('s, pyval) act"
  video_read :: "UploadFile \<Rightarrow> ('s, pyval) act"
  uuid4 :: "('s, string) act"

text \<open>Operations of Python on values: \<open>isinstance(x, dict)\<close>, \<open>k in d\<close>, \<open>d.get(k, default)\<close>
  and \<open>d[k]\<close>.\<close>

fun is_dict :: "pyval \<Rightarrow> bool" where
  "is_dict (PDict kvs) = True"
| "is_dict _ = False"

fun has_key :: "string \<Rightarrow> pyval \<Rightarrow> bool" where
  "has_key k (PDict kvs) = (map_of kvs k \<noteq> None)"
| "has_key k _ = False"

fun dict_get :: "pyval \<Rightarrow> string \<Rightarrow> pyval \<Rightarrow> exn + pyval" where
  "dict_get (PDict kvs) k dflt = Inr (case map_of kvs k of Some v \<Rightarrow> v | None \<Rightarrow> dflt)"
| "dict_get _ k dflt = Inl (PyError ''AttributeError'')"

fun getitem :: "pyval \<Rightarrow> string \<Rightarrow> exn + pyval" where
  "getitem (PDict kvs) k = (case map_of kvs k of Some v \<Rightarrow> Inr v | None \<Rightarrow> Inl (PyError ''KeyError''))"
| "getitem _ k = Inl (PyError ''TypeError'')"

text \<open>
  The comparison \<open>x > c\<close> of a float with a finite number: exact on a finite float,
  and false on \<open>nan\<close>.
\<close>

fun float_gt :: "pyfloat \<Rightarrow> real \<Rightarrow> bool" where
  "float_gt (Finite r) c = (c < r)"
| "float_gt (Special PosInf) c = True"
| "float_gt (Special NegInf) c = False"
| "float_gt (Special NaN) c = False"

section \<open>Session validation: \<open>get_current_user\<close>\<close>

text \<open>
  The not-authenticated exits inside the \<open>try\<close>: \<open>return None\<close> when \<open>return_none\<close> is
  set, otherwise \<open>raise HTTPException(status_code=401, detail=...)\<close>.
\<close>

definition reject :: "bool \<Rightarrow> string \<Rightarrow> exn + pyval" where
  "reject return_none detail =
     (if return_none then Inr PNone else Inl (HTTPException 401 detail))"

text \<open>The body of the \<open>try\<close> block (lines 165 to 188).\<close>

definition get_current_user_try ::
  "config \<Rightarrow> 's deps \<Rightarrow> (string \<rightharpoonup> string) \<Rightarrow> bool \<Rightarrow> ('s world, pyval) act" where
  "get_current_user_try cfg D cookies return_none w =
     (case cookies ''session_id'' of
        None \<Rightarrow> (reject return_none ''Not authenticated'', w)
      | Some session_id \<Rightarrow>
          if session_id = [] then (reject return_none ''Not authenticated'', w)
          else
            (case invoke ''validate_session'' [PStr session_id] (validate_session D session_id) w of
               (Inl e, w1) \<Rightarrow> (Inl e, w1)
             | (Inr (is_valid, session_data), w1) \<Rightarrow>
                 if \<not> is_valid \<or> \<not> truthy session_data
                 then (reject return_none ''Invalid or expired session'', w1)
                 else if \<not> is_dict session_data \<or> \<not> has_key ''id'' session_data
                 then (reject return_none ''Invalid session data'', w1)
                 else
                   (case dict_get session_data ''last_refresh'' (PNum 0) of
                      Inl e \<Rightarrow> (Inl e, w1)
                    | Inr last_refresh \<Rightarrow>
                        (case float_sub D (time_time D (snd w1)) last_refresh of
                           Inl e \<Rightarrow> (Inl e, w1)
                         | Inr age \<Rightarrow>
                             if float_gt age (SESSION_REFRESH_THRESHOLD cfg)
                             then
                               (case invoke ''refresh_session'' [PStr session_id]
                                       (refresh_session D session_id) w1 of
                                  (Inl e, w2) \<Rightarrow> (Inl e, w2)
                                | (Inr _, w2) \<Rightarrow> (Inr session_data, w2))
                             else (Inr session_data, w1)))))"

text \<open>
  The whole function: \<open>except Exception\<close> catches everything the body raises, the
  \<open>HTTPException\<close>s of the body included, logs it, and returns \<open>None\<close> or raises
  \<open>HTTPException(401, "Authentication error")\<close>.
\<close>

definition get_current_user ::
  "config \<Rightarrow> 's deps \<Rightarrow> (string \<rightharpoonup> string) \<Rightarrow> bool \<Rightarrow> ('s world, pyval) act" where
  "get_current_user cfg D cookies return_none w =
     (case get_current_user_try cfg D cookies return_none w of
        (Inr v, w') \<Rightarrow> (Inr v, w')
      | (Inl e, w') \<Rightarrow>
          (if return_none then Inr PNone else Inl (HTTPException 401 ''Authentication error''),
           log_error ''Error in get_current_user'' (Some e) w'))"


section \<open>Sequencing of calls that may raise\<close>

text \<open>
  \<open>bind m f\<close> runs \<open>m\<close> and, unless it raised, continues with \<open>f\<close> on its result: one
  statement after another inside a \<open>try\<close> block. \<open>pure_result\<close> is a computation
  that does not touch the state.
\<close>

definition bind :: "('w, 'a) act \<Rightarrow> ('a \<Rightarrow> ('w, 'b) act) \<Rightarrow> ('w, 'b) act" where
  "bind m f w = (case m w of (Inl e, w') \<Rightarrow> (Inl e, w') | (Inr a, w') \<Rightarrow> f a w')"

definition pure_result :: "exn + 'a \<Rightarrow> ('w, 'a) act" where
  "pure_result r w = (r, w)"

section \<open>Requests and responses\<close>

text \<open>
  Of a request the handlers read the cookies and \<open>request.client.host\<close>
  (\<open>request.client\<close> may be \<open>None\<close>). A response is its status code, its JSON content
  and the cookies it sets.
\<close>

record request =
  cookies :: "string \<rightharpoonup> string"
  client_host :: "string option"

record cookie =
  cookie_key :: string
  cookie_value :: string
  httponly :: bool
  secure :: bool
  samesite :: string
  max_age :: real

record response =
  status_code :: nat
  content :: pyval
  set_cookies :: "cookie list"

definition JSONResponse :: "nat \<Rightarrow> pyval \<Rightarrow> response" where
  "JSONResponse code body = \<lparr>status_code = code, content = body, set_cookies = []\<rparr>"

section \<open>Login: \<open>login_post\<close>\<close>

text \<open>The body of the \<open>try\<close> block (lines 203 to 247).\<close>

definition login_post_try ::
  "config \<Rightarrow> 's deps \<Rightarrow> request \<Rightarrow> string \<Rightarrow> string \<Rightarrow> ('s world, response) act" where
  "login_post_try cfg D req email password =
     bind (pure_result (case client_host req of
                          None \<Rightarrow> Inl (PyError ''AttributeError'')
                        | Some host \<Rightarrow> Inr host)) (\<lambda>host.
     bind (invoke ''check_rate_limit'' [PStr ''login'', PStr host]
             (check_rate_limit D ''login'' host)) (\<lambda>allowed.
     if \<not> allowed
     then pure_result
            (Inl (HTTPException 429 ''Too many login attempts. Please try again later.''))
     else
     bind (invoke ''sign_in_with_password'' [PStr email, PStr password]
             (sign_in_with_password D email password)) (\<lambda>auth_user.
     if \<not> truthy auth_user
     then (\<lambda>w. (Inr (JSONResponse 400
                        (PDict [(''success'', PBool False),
                                (''message'', PStr ''Invalid credentials'')])),
                 log_error ''Login failed: No user in response'' None w))
     else
     bind (invoke ''get_user_by_email'' [PStr email] (get_user_by_email D email)) (\<lambda>found.
     bind (if \<not> truthy found
           then invoke ''create_user'' [PStr email] (create_user D email)
           else pure_result (Inr found)) (\<lambda>user.
     bind (invoke ''token_urlsafe'' [PNum 32] (token_urlsafe D)) (\<lambda>session_id.
     bind (pure_result (dict_get user ''id'' PNone)) (\<lambda>uid.
     (\<lambda>w.
        (let session_data =
               PDict [(''id'', PStr (py_str D uid)),
                      (''email'', PStr email),
                      (''last_refresh'', PNum (time_time D (snd w)))]
         in bind (invoke ''set_session''
                    [PStr session_id, session_data, PNum (SESSION_LIFETIME cfg)]
                    (set_session D session_id session_data (SESSION_LIFETIME cfg))) (\<lambda>written.
            if \<not> written
            then pure_result (Inl (HTTPException 500 ''Failed to create session''))
            else pure_result
                   (Inr ((JSONResponse 200
                            (PDict [(''success'', PBool True),
                                    (''message'', PStr ''Login successful'')]))
                         \<lparr>set_cookies :=
                            [\<lparr>cookie_key = ''session_id'',
                              cookie_value = session_id,
                              httponly = COOKIE_HTTPONLY cfg,
                              secure = COOKIE_SECURE cfg,
                              samesite = COOKIE_SAMESITE cfg,
                              max_age = SESSION_LIFETIME cfg\<rparr>]\<rparr>))) w)))))))))"

text \<open>
  The whole handler: \<open>except Exception\<close> turns every exception of the body, the
  \<open>HTTPException\<close>s 429 and 500 included, into a 400 response carrying \<open>str(e)\<close>.
\<close>

definition login_post ::
  "config \<Rightarrow> 's deps \<Rightarrow> request \<Rightarrow> string \<Rightarrow> string \<Rightarrow> 's world \<Rightarrow> response \<times> 's world" where
  "login_post cfg D req email password w =
     (case login_post_try cfg D req email password w of
        (Inr resp, w') \<Rightarrow> (resp, w')
      | (Inl e, w') \<Rightarrow>
          (JSONResponse 400
             (PDict [(''success'', PBool False), (''message'', PStr (exc_str D e))]),
           log_error ''Login error'' (Some e) w'))"

section \<open>The history endpoints\<close>

text \<open>
  \<open>get_chat_history_endpoint\<close> and \<open>get_video_analysis_history_endpoint\<close> differ in the
  prefix of the cache key, the log line and the datastore query only; the model shares
  their body. Neither has a \<open>try\<close>: every exception propagates.
\<close>

definition history_endpoint ::
  "string \<Rightarrow> string \<Rightarrow> string \<Rightarrow> (pyval \<Rightarrow> ('s, pyval) act) \<Rightarrow>
   config \<Rightarrow> 's deps \<Rightarrow> request \<Rightarrow> ('s world, response) act" where
  "history_endpoint prefix info query_name query cfg D req =
     bind (get_current_user cfg D (cookies req) False) (\<lambda>user.
     if \<not> truthy user
     then pure_result (Inr (JSONResponse 200 (PDict [(''history'', PList [])])))
     else
     bind (pure_result (getitem user ''id'')) (\<lambda>uid.
     bind (invoke ''get_cache'' [PStr (prefix @ py_str D uid)]
             (get_cache D (prefix @ py_str D uid))) (\<lambda>cached_history.
     if truthy cached_history
     then (\<lambda>w. (Inr (JSONResponse 200 (PDict [(''history'', cached_history)])),
                 log_info (info @ py_str D uid) w))
     else
     bind (pure_result (uuid_UUID D uid)) (\<lambda>user_uuid.
     bind (invoke query_name [user_uuid] (query user_uuid)) (\<lambda>history.
     bind (invoke ''set_cache'' [PStr (prefix @ py_str D uid), history]
             (set_cache D (prefix @ py_str D uid) history)) (\<lambda>_.
     pure_result (Inr (JSONResponse 200 (PDict [(''history'', history)])))))))))"

definition get_chat_history_endpoint ::
  "config \<Rightarrow> 's deps \<Rightarrow> request \<Rightarrow> ('s world, response) act" where
  "get_chat_history_endpoint cfg D req =
     history_endpoint ''chat_history:'' ''Returning cached chat history for user ''
       ''get_chat_history'' (get_chat_history D) cfg D req"

definition get_video_analysis_history_endpoint ::
  "config \<Rightarrow> 's deps \<Rightarrow> request \<Rightarrow> ('s world, response) act" where
  "get_video_analysis_history_endpoint cfg D req =
     history_endpoint ''video_history:'' ''Returning cached video history for user ''
       ''get_video_analysis_history'' (get_video_analysis_history D) cfg D req"

section \<open>Sending a message: \<open>send_message\<close> (the endpoint)\<close>

text \<open>The body of the loop over the uploaded videos (lines 431 to 469).\<close>

definition process_video :: "'s deps \<Rightarrow> pyval \<Rightarrow> UploadFile \<Rightarrow> ('s world, pyval) act" where
  "process_video D user video =
     bind (invoke ''video.read'' [filename video] (video_read D video)) (\<lambda>content.
     bind (invoke ''uuid4'' [] (uuid4 D)) (\<lambda>file_id.
     bind (pure_result (getitem user ''id'')) (\<lambda>uid.
     bind (invoke ''enqueue_task''
             [PStr (TaskType_name VIDEO_PROCESSING),
              PDict [(''file_id'', PStr file_id), (''filename'', filename video),
                     (''user_id'', uid)],
              PStr (TaskPriority_name HIGH)]
             (enqueue_task D VIDEO_PROCESSING
                (PDict [(''file_id'', PStr file_id), (''filename'', filename video),
                        (''user_id'', uid)])
                HIGH)) (\<lambda>task_id.
     bind (invoke ''store_file'' [PStr file_id, content] (store_file D file_id content)) (\<lambda>stored.
     if \<not> stored then pure_result (Inr PNone)
     else
     bind (invoke ''analyze_video'' [PStr file_id, filename video]
             (analyze_video D file_id (filename video))) (\<lambda>(analysis_text, metadata).
     bind (pure_result (getitem user ''id'')) (\<lambda>uid'.
     bind (invoke ''enqueue_task''
             [PStr (TaskType_name VIDEO_ANALYSIS),
              PDict [(''file_id'', PStr file_id), (''analysis'', analysis_text),
                     (''metadata'', metadata), (''user_id'', uid')],
              PStr (TaskPriority_name MEDIUM)]
             (enqueue_task D VIDEO_ANALYSIS
                (PDict [(''file_id'', PStr file_id), (''analysis'', analysis_text),
                        (''metadata'', metadata), (''user_id'', uid')])
                MEDIUM)) (\<lambda>analysis_task_id.
     bind (pure_result (getitem user ''id'')) (\<lambda>uid''.
     bind (pure_result (uuid_UUID D uid'')) (\<lambda>user_uuid.
     bind (pure_result (if truthy metadata then dict_get metadata ''duration'' PNone
                        else Inr PNone)) (\<lambda>video_duration.
     bind (pure_result (if truthy metadata then dict_get metadata ''format'' PNone
                        else Inr PNone)) (\<lambda>video_format.
     bind (invoke ''insert_video_analysis''
             [user_uuid, filename video, analysis_text, video_duration, video_format]
             (insert_video_analysis D user_uuid (filename video) analysis_text
                video_duration video_format)) (\<lambda>_.
     pure_result (Inr PNone))))))))))))))"

fun process_videos :: "'s deps \<Rightarrow> pyval \<Rightarrow> UploadFile list \<Rightarrow> ('s world, pyval) act" where
  "process_videos D user [] = pure_result (Inr PNone)"
| "process_videos D user (video # videos) =
     bind (process_video D user video) (\<lambda>_. process_videos D user videos)"

text \<open>
  The body of the \<open>try\<close> block (lines 429 to 479); \<open>videos\<close> is \<open>None\<close> or a list, and
  \<open>if videos:\<close> skips the loop for both \<open>None\<close> and the empty list.
\<close>

definition send_message_try ::
  "'s deps \<Rightarrow> pyval \<Rightarrow> string \<Rightarrow> UploadFile list option \<Rightarrow> ('s world, response) act" where
  "send_message_try D user message videos =
     bind (case videos of
             None \<Rightarrow> pure_result (Inr PNone)
           | Some vs \<Rightarrow> process_videos D user vs) (\<lambda>_.
     bind (invoke ''chatbot.send_message'' [PStr message]
             (chatbot_send_message D message)) (\<lambda>response_text.
     bind (pure_result (getitem user ''id'')) (\<lambda>uid.
     bind (pure_result (uuid_UUID D uid)) (\<lambda>user_uuid.
     bind (invoke ''insert_chat_message'' [user_uuid, PStr message, PStr ''user'']
             (insert_chat_message D user_uuid (PStr message) ''user'')) (\<lambda>_.
     bind (pure_result (getitem user ''id'')) (\<lambda>uid'.
     bind (pure_result (uuid_UUID D uid')) (\<lambda>user_uuid'.
     bind (invoke ''insert_chat_message'' [user_uuid', response_text, PStr ''bot'']
             (insert_chat_message D user_uuid' response_text ''bot'')) (\<lambda>_.
     bind (pure_result (getitem user ''id'')) (\<lambda>uid''.
     bind (invoke ''invalidate_cache'' [PStr (''chat_history:'' @ py_str D uid'')]
             (invalidate_cache D (''chat_history:'' @ py_str D uid''))) (\<lambda>_.
     pure_result (Inr (JSONResponse 200 (PDict [(''response'', response_text)])))))))))))))"

text \<open>
  The whole handler: \<open>get_current_user\<close> runs before the \<open>try\<close>, so its 401
  propagates; every exception of the body becomes \<open>HTTPException(500, str(e))\<close>.
\<close>

definition send_message_endpoint ::
  "config \<Rightarrow> 's deps \<Rightarrow> request \<Rightarrow> string \<Rightarrow> UploadFile list option \<Rightarrow>
   ('s world, response) act" where
  "send_message_endpoint cfg D req message videos w =
     (case get_current_user cfg D (cookies req) False w of
        (Inl e, w1) \<Rightarrow> (Inl e, w1)
      | (Inr user, w1) \<Rightarrow>
          (case send_message_try D user message videos w1 of
             (Inr resp, w2) \<Rightarrow> (Inr resp, w2)
           | (Inl e, w2) \<Rightarrow>
               (Inl (HTTPException 500 (exc_str D e)),
                log_error ''Error processing message'' (Some e) w2)))"

section \<open>The shared-state layer behind \<open>redis_manager\<close>\<close>

text \<open>
  Modelled from the spec: the state behind \<open>RedisManager\<close>, whose source
  \<open>redis_manager.py\<close> is not among the sources. Where a claim is about what
  \<open>RedisManager\<close> itself does, its operations are modelled from the specification
  (sections 3, 4.1 to 4.5 and 7), over one state: the clock, whether the backing store
  is reachable, and the store's sessions, cache entries, rate-limit counters and task
  queues. An entry with a TTL carries its expiry time and is visible while the clock is
  before it.
\<close>

record session_record =
  session_data :: pyval
  lifetime :: real
  expires_at :: real

record cache_record =
  payload :: pyval
  cache_expires_at :: real

record counter_record =
  hits :: nat
  counter_expires_at :: real

record task =
  task_seq :: nat
  task_type :: TaskType
  task_payload :: pyval
  task_priority :: TaskPriority

record backend =
  clock :: real
  store_up :: bool
  sessions :: "string \<rightharpoonup> session_record"
  cache :: "string \<rightharpoonup> cache_record"
  counters :: "(string \<times> string \<times> int) \<rightharpoonup> counter_record"
  next_seq :: nat
  queues :: "TaskPriority \<Rightarrow> task list"

definition empty_backend :: backend where
  "empty_backend =
     \<lparr>clock = 0, store_up = True, sessions = Map.empty, cache = Map.empty,
      counters = Map.empty, next_seq = 0, queues = (\<lambda>_. [])\<rparr>"

subsection \<open>Session manager\<close>

fun dict_put :: "string \<Rightarrow> pyval \<Rightarrow> pyval \<Rightarrow> pyval" where
  "dict_put k v (PDict kvs) = PDict (AList.update k v kvs)"
| "dict_put k v d = d"

text \<open>
  Modelled from the spec: the session record a key maps to (\<open>RedisManager\<close>'s read of
  a session, section 3 "Session"): the record stored under the key, unless its TTL has
  run out.
\<close>

definition live_session :: "backend \<Rightarrow> string \<Rightarrow> session_record option" where
  "live_session b session_key =
     (case sessions b session_key of
        None \<Rightarrow> None
      | Some r \<Rightarrow> if clock b < expires_at r then Some r else None)"

text \<open>
  Modelled from the spec: \<open>RedisManager.set_session\<close> (section 4.2, \<open>create\<close>): writes a
  new session record with \<open>last_refresh = now\<close> and the given lifetime as TTL. A write
  that cannot be confirmed is reported by the result \<open>False\<close>, which is what
  \<open>login_post\<close> tests.
\<close>

definition spec_set_session :: "string \<Rightarrow> pyval \<Rightarrow> real \<Rightarrow> (backend, bool) act" where
  "spec_set_session session_key claims life b =
     (if \<not> store_up b then (Inr False, b)
      else (Inr True,
            b\<lparr>sessions := (sessions b)(session_key \<mapsto>
                 \<lparr>session_data = dict_put ''last_refresh'' (PNum (clock b)) claims,
                  lifetime = life,
                  expires_at = clock b + life\<rparr>)\<rparr>))"

text \<open>
  Modelled from the spec: \<open>RedisManager.validate_session\<close> (section 4.2, \<open>validate\<close>):
  reads the record; invalid if absent, if malformed (missing the identity field), or if
  the store read fails; it never raises.
\<close>

definition spec_validate_session :: "string \<Rightarrow> (backend, bool \<times> pyval) act" where
  "spec_validate_session session_key b =
     (if \<not> store_up b then (Inr (False, PNone), b)
      else
        (case live_session b session_key of
           None \<Rightarrow> (Inr (False, PNone), b)
         | Some r \<Rightarrow>
             if \<not> has_key ''id'' (session_data r) then (Inr (False, PNone), b)
             else (Inr (True, session_data r), b)))"

text \<open>
  Modelled from the spec: \<open>RedisManager.refresh_session\<close> (section 4.2, \<open>refresh\<close>):
  re-writes the record with the same TTL and an updated \<open>last_refresh\<close>; \<open>False\<close> if the
  record no longer exists (a store failure is treated as absent, section 7).
\<close>

definition spec_refresh_session :: "string \<Rightarrow> (backend, bool) act" where
  "spec_refresh_session session_key b =
     (if \<not> store_up b then (Inr False, b)
      else
        (case live_session b session_key of
           None \<Rightarrow> (Inr False, b)
         | Some r \<Rightarrow>
             (Inr True,
              b\<lparr>sessions := (sessions b)(session_key \<mapsto>
                   r\<lparr>session_data := dict_put ''last_refresh'' (PNum (clock b)) (session_data r),
                     expires_at := clock b + lifetime r\<rparr>)\<rparr>)))"


subsection \<open>Cache manager\<close>

text \<open>
  Modelled from the spec: \<open>RedisManager.get_cache\<close> (section 4.4, \<open>get\<close>): the value
  stored under the key, or absent (\<open>None\<close>); an expired entry is absent, and a store
  failure is treated as a miss (section 7).
\<close>

definition spec_get_cache :: "string \<Rightarrow> (backend, pyval) act" where
  "spec_get_cache k b =
     (if \<not> store_up b then (Inr PNone, b)
      else
        (case cache b k of
           None \<Rightarrow> (Inr PNone, b)
         | Some r \<Rightarrow> if clock b < cache_expires_at r then (Inr (payload r), b) else (Inr PNone, b)))"

text \<open>
  Modelled from the spec: \<open>RedisManager.set_cache\<close> (section 4.4, \<open>set\<close>) with the TTL
  \<open>ttl\<close>; the result tells whether the store took the write.
\<close>

definition spec_set_cache :: "real \<Rightarrow> string \<Rightarrow> pyval \<Rightarrow> (backend, pyval) act" where
  "spec_set_cache ttl k v b =
     (if \<not> store_up b then (Inr (PBool False), b)
      else (Inr (PBool True),
            b\<lparr>cache := (cache b)(k \<mapsto> \<lparr>payload = v, cache_expires_at = clock b + ttl\<rparr>)\<rparr>))"

text \<open>
  Modelled from the spec: \<open>RedisManager.invalidate_cache\<close> (section 4.4, \<open>invalidate\<close>):
  it completes, and then the key is gone, or it fails loudly (it raises
  \<open>StoreUnavailable\<close>) and nothing is changed; there is no partial invalidation.
\<close>

definition spec_invalidate_cache :: "string \<Rightarrow> (backend, pyval) act" where
  "spec_invalidate_cache k b =
     (if \<not> store_up b then (Inl (PyError ''StoreUnavailable''), b)
      else (Inr (PBool True), b\<lparr>cache := (cache b)(k := None)\<rparr>))"

subsection \<open>Rate limiter\<close>

text \<open>
  Modelled from the spec: the index of the current window of a fixed-window counter
  (section 4.3): windows of length \<open>window\<close> are counted from time 0.
\<close>

definition window_index :: "real \<Rightarrow> real \<Rightarrow> int" where
  "window_index now window = \<lfloor>now / window\<rfloor>"

text \<open>
  Modelled from the spec: \<open>RedisManager.check_rate_limit\<close> (section 4.3, \<open>check\<close>):
  increments the counter keyed by (action, client identity, current window index),
  created with TTL = window length if absent; allowed iff the post-increment count is
  at most \<open>max_requests\<close>. When the store is unavailable the answer is the configured
  policy \<open>fail_open\<close>. A window of length 0 has no window index: the division raises.
\<close>

definition spec_check_rate_limit ::
  "bool \<Rightarrow> nat \<Rightarrow> real \<Rightarrow> string \<Rightarrow> string \<Rightarrow> (backend, bool) act" where
  "spec_check_rate_limit fail_open max_requests window action client b =
     (if window = 0 then (Inl (PyError ''ZeroDivisionError''), b)
      else if \<not> store_up b then (Inr fail_open, b)
      else
        (let k = (action, client, window_index (clock b) window);
             entry = (case counters b k of
                        None \<Rightarrow> \<lparr>hits = 0, counter_expires_at = clock b + window\<rparr>
                      | Some c \<Rightarrow>
                          if clock b < counter_expires_at c then c
                          else \<lparr>hits = 0, counter_expires_at = clock b + window\<rparr>);
             n = hits entry + 1
         in (Inr (n \<le> max_requests), b\<lparr>counters := (counters b)(k \<mapsto> entry\<lparr>hits := n\<rparr>)\<rparr>)))"

text \<open>The counter of a window after \<open>n\<close> checks in it.\<close>

definition counted :: "real \<Rightarrow> string \<times> string \<times> int \<Rightarrow> nat \<Rightarrow> backend \<Rightarrow> bool" where
  "counted W key n b \<longleftrightarrow>
     store_up b \<and>
     (case counters b key of
        None \<Rightarrow> n = 0
      | Some c \<Rightarrow> hits c = n \<and> 0 < n
          \<and> window_index (counter_expires_at c - W) W = snd (snd key))"

text \<open>
  A run of checks for one action and client: the clock is set to each time in turn and
  the limiter is asked; the answers are collected in order.
\<close>

fun run_checks ::
  "bool \<Rightarrow> nat \<Rightarrow> real \<Rightarrow> string \<Rightarrow> string \<Rightarrow> real list \<Rightarrow> backend \<Rightarrow> (exn + bool) list \<times> backend" where
  "run_checks fail_open max_requests window action client [] b = ([], b)"
| "run_checks fail_open max_requests window action client (t # ts) b =
     (case spec_check_rate_limit fail_open max_requests window action client (b\<lparr>clock := t\<rparr>) of
        (r, b') \<Rightarrow>
          (case run_checks fail_open max_requests window action client ts b' of
             (rs, b'') \<Rightarrow> (r # rs, b'')))"

subsection \<open>Task queue\<close>

text \<open>
  Modelled from the spec: the rank of a priority (section 3: an ordered enumeration,
  high before medium before low).
\<close>

fun priority_rank :: "TaskPriority \<Rightarrow> nat" where
  "priority_rank HIGH = 0"
| "priority_rank MEDIUM = 1"
| "priority_rank LOW = 2"

text \<open>
  Modelled from the spec: \<open>RedisManager.enqueue_task\<close> (section 4.5, \<open>enqueue\<close>): one
  ordered collection per priority level; the task gets the next sequence number, which
  also serves as its id, and is appended to the collection of its priority. If the store
  is unavailable the call fails with \<open>StoreUnavailable\<close> and nothing is queued.
\<close>

definition spec_enqueue_task :: "TaskType \<Rightarrow> pyval \<Rightarrow> TaskPriority \<Rightarrow> (backend, pyval) act" where
  "spec_enqueue_task ttype pl prio b =
     (if \<not> store_up b then (Inl (PyError ''StoreUnavailable''), b)
      else
        (Inr (PNum (real (next_seq b))),
         b\<lparr>next_seq := next_seq b + 1,
           queues := (queues b)(prio := queues b prio @
              [\<lparr>task_seq = next_seq b, task_type = ttype, task_payload = pl,
                task_priority = prio\<rparr>])\<rparr>))"

text \<open>
  Modelled from the spec: the order in which the queued tasks are retrievable
  (section 4.5): the collections in the order of the priority ranks.
\<close>

definition retrieval_order :: "backend \<Rightarrow> task list" where
  "retrieval_order b = queues b HIGH @ queues b MEDIUM @ queues b LOW"

text \<open>Enqueuing a list of requests in order; a failed enqueue leaves the queue as it was.\<close>

fun enqueue_all :: "(TaskType \<times> pyval \<times> TaskPriority) list \<Rightarrow> backend \<Rightarrow> backend" where
  "enqueue_all [] b = b"
| "enqueue_all ((ttype, pl, prio) # reqs) b =
     enqueue_all reqs (snd (spec_enqueue_task ttype pl prio b))"

text \<open>The sort key of the documented order: priority rank first, then sequence number.\<close>

definition task_key :: "task \<Rightarrow> nat \<times> nat" where
  "task_key t = (priority_rank (task_priority t), task_seq t)"

definition key_less :: "nat \<times> nat \<Rightarrow> nat \<times> nat \<Rightarrow> bool" where
  "key_less a b = (fst a < fst b \<or> (fst a = fst b \<and> snd a < snd b))"

text \<open>
  The invariant of the queues: each collection holds tasks of its own priority only, in
  increasing order of sequence number, all below the next number to be given out.
\<close>

definition queue_ok :: "backend \<Rightarrow> bool" where
  "queue_ok b \<longleftrightarrow>
     (\<forall>p. (\<forall>t\<in>set (queues b p). task_priority t = p \<and> task_seq t < next_seq b)
          \<and> sorted_wrt (\<lambda>x y. task_seq x < task_seq y) (queues b p))"

text \<open>The task that the request numbered \<open>i\<close> becomes.\<close>

definition mk_task :: "nat \<times> TaskType \<times> pyval \<times> TaskPriority \<Rightarrow> task" where
  "mk_task x =
     (case x of (i, ttype, pl, prio) \<Rightarrow>
        \<lparr>task_seq = i, task_type = ttype, task_payload = pl, task_priority = prio\<rparr>)"

section \<open>Double-precision subtraction\<close>

text \<open>
  The float subtraction of Python, on exact values. \<open>to_double\<close> rounds a real to the
  nearest double, ties to the even significand: the exponent of \<open>x\<close> is
  \<open>\<lfloor>log 2 \<bar>x\<bar>\<rfloor>\<close>, not below that of the subnormals, the significand has 53 bits, and a
  result of magnitude \<open>2 ^ 1024\<close> or more is infinite.
\<close>

definition round_half_even :: "real \<Rightarrow> int" where
  "round_half_even r =
     (if r - of_int \<lfloor>r\<rfloor> < 1 / 2 then \<lfloor>r\<rfloor>
      else if 1 / 2 < r - of_int \<lfloor>r\<rfloor> then \<lfloor>r\<rfloor> + 1
      else if even \<lfloor>r\<rfloor> then \<lfloor>r\<rfloor> else \<lfloor>r\<rfloor> + 1)"

definition double_ulp :: "real \<Rightarrow> real" where
  "double_ulp x = 2 powi (max \<lfloor>log 2 \<bar>x\<bar>\<rfloor> (- 1022) - 52)"

definition to_double :: "real \<Rightarrow> pyfloat" where
  "to_double x =
     (if x = 0 then Finite 0
      else if 2 ^ 1024 \<le> \<bar>of_int (round_half_even (x / double_ulp x)) * double_ulp x\<bar>
      then Special (if 0 < x then PosInf else NegInf)
      else Finite (of_int (round_half_even (x / double_ulp x)) * double_ulp x))"

text \<open>
  \<open>double_sub x y\<close>: \<open>x - y\<close> for a float \<open>x\<close>. A number \<open>y\<close> is converted to a float first
  (an \<open>int\<close> too large for one raises \<open>OverflowError\<close>; a float is unchanged by the
  conversion), \<open>True\<close> and \<open>False\<close> count as 1 and 0, and the difference is rounded.
\<close>

fun double_sub :: "real \<Rightarrow> pyval \<Rightarrow> exn + pyfloat" where
  "double_sub x (PNum y) =
     (case to_double y of
        Special _ \<Rightarrow> Inl (PyError ''OverflowError'')
      | Finite y' \<Rightarrow> Inr (to_double (x - y')))"
| "double_sub x (PBool b) = Inr (to_double (x - (if b then 1 else 0)))"
| "double_sub x (PSpecial PosInf) = Inr (Special NegInf)"
| "double_sub x (PSpecial NegInf) = Inr (Special PosInf)"
| "double_sub x (PSpecial NaN) = Inr (Special NaN)"
| "double_sub x _ = Inl (PyError ''TypeError'')"

section \<open>A concrete set of collaborators\<close>

text \<open>
  For evaluating the handlers at concrete inputs: double-precision subtraction, the
  \<open>redis_manager\<close> operations as modelled above (at most 5 logins per window of 60
  seconds, failing closed; cache TTL 300 seconds), and fixed answers for the identity
  provider, the datastore, the chatbot and the file storage.
\<close>

definition sample_config :: config where
  "sample_config =
     \<lparr>SESSION_LIFETIME = 3600, SESSION_REFRESH_THRESHOLD = 300, COOKIE_SECURE = True,
      COOKIE_HTTPONLY = True, COOKIE_SAMESITE = ''lax''\<rparr>"

definition sample_deps :: "backend deps" where
  "sample_deps =
     \<lparr>time_time = clock,
      float_sub = double_sub,
      py_str = (\<lambda>v. case v of PStr s \<Rightarrow> s | _ \<Rightarrow> ''None''),
      exc_str = (\<lambda>e. case e of HTTPException c d \<Rightarrow> d | PyError n \<Rightarrow> n),
      uuid_UUID = (\<lambda>v. case v of PStr s \<Rightarrow> Inr (PStr s) | _ \<Rightarrow> Inl (PyError ''AttributeError'')),
      validate_session = spec_validate_session,
      refresh_session = spec_refresh_session,
      set_session = spec_set_session,
      check_rate_limit = spec_check_rate_limit False 5 60,
      get_cache = spec_get_cache,
      set_cache = spec_set_cache 300,
      invalidate_cache = spec_invalidate_cache,
      enqueue_task = spec_enqueue_task,
      sign_in_with_password =
        (\<lambda>email password b.
           (Inr (if password = ''secret'' then PDict [(''email'', PStr email)] else PNone), b)),
      get_user_by_email = (\<lambda>email b. (Inr (PDict [(''id'', PStr ''u1''), (''email'', PStr email)]), b)),
      create_user = (\<lambda>email b. (Inr (PDict [(''id'', PStr ''u1''), (''email'', PStr email)]), b)),
      token_urlsafe = (\<lambda>b. (Inr ''token-1'', b)),
      get_chat_history = (\<lambda>u b. (Inr (PList [PStr ''stored message'']), b)),
      get_video_analysis_history = (\<lambda>u b. (Inr (PList [PStr ''stored analysis'']), b)),
      insert_chat_message = (\<lambda>u m r b. (Inr PNone, b)),
      insert_video_analysis = (\<lambda>u n a d f b. (Inr PNone, b)),
      store_file = (\<lambda>f c b. (Inr True, b)),
      analyze_video = (\<lambda>f n b. (Inr (PStr ''analysis'', PDict [(''duration'', PNum 12)]), b)),
      chatbot_send_message = (\<lambda>m b. (Inr (PStr ''reply''), b)),
      video_read = (\<lambda>v b. (Inr (PStr ''bytes''), b)),
      uuid4 = (\<lambda>b. (Inr ''file-1'', b))\<rparr>"

text \<open>A backend holding one session, for user \<open>u1\<close>, created at time 0 for 3600 seconds.\<close>

definition one_session :: backend where
  "one_session =
     empty_backend\<lparr>sessions :=
       [''token-1'' \<mapsto>
          \<lparr>session_data = PDict [(''id'', PStr ''u1''), (''email'', PStr ''a@b.c''),
                                 (''last_refresh'', PNum 0)],
           lifetime = 3600, expires_at = 3600\<rparr>]\<rparr>"

section \<open>Connection registry: theorems\<close>

lemma handles_of_card: "card (handles_of self c) \<le> 1"
proof (cases "active_connections self c")
  case None
  then show ?thesis by (simp add: handles_of_def)
next
  case (Some ws)
  then have "handles_of self c = {ws}" by (auto simp: handles_of_def)
  then show ?thesis by simp
qed

text \<open>
  C6. After any sequence of connect/disconnect operations the registry holds at most
  one handle per client id. A \<open>connect\<close> whose \<open>accept\<close> returns never fails, whatever
  was registered before; afterwards the dictionary holds exactly the new socket for that
  id (other ids unchanged), and a following \<open>send_message\<close> to the id hands the message
  to the new socket and to no other.
\<close>

theorem connect_replaces_handle:
  fixes ops :: "registry_op list"
  assumes "self = run_registry ops self0"
    and "connect None ws c self = (r, self')"
    and "send_message None msg c self' = (r', self'')"
  shows "(\<forall>c'. card (handles_of self c') \<le> 1 \<and> card (handles_of self' c') \<le> 1)
       \<and> r = Inr PNone
       \<and> active_connections self' = (active_connections self)(c \<mapsto> ws)
       \<and> handles_of self' c = {ws}
       \<and> r' = Inr PNone
       \<and> delivered self'' = delivered self' @ [(ws, msg)]
       \<and> delivered self' = delivered self"
proof -
  from assms(2) have r: "r = Inr PNone"
    and s': "self' = self\<lparr>accepted := accepted self @ [ws],
                active_connections := (active_connections self)(c \<mapsto> ws)\<rparr>"
    by (simp_all add: connect_def)
  from assms(3) s' have r': "r' = Inr PNone"
    and s'': "self'' = self'\<lparr>delivered := delivered self' @ [(ws, msg)]\<rparr>"
    by (simp_all add: send_message_def)
  have one: "\<forall>c'. card (handles_of self c') \<le> 1 \<and> card (handles_of self' c') \<le> 1"
    using handles_of_card by blast
  have new: "handles_of self' c = {ws}"
    using s' by (auto simp: handles_of_def)
  have "active_connections self' = (active_connections self)(c \<mapsto> ws)"
    and "delivered self'' = delivered self' @ [(ws, msg)]"
    and "delivered self' = delivered self"
    using s' s'' by simp_all
  with one new r r' show ?thesis
    by blast
qed

theorem connect_replaces_handle_witness:
  "delivered (snd (send_message None (PStr ''hi'') ''c1''
      (snd (connect None 2 ''c1'' (run_registry [Connect None 1 ''c1''] init_manager)))))
    = [(2, PStr ''hi'')]"
  using connect_replaces_handle [where self = "run_registry [Connect None 1 ''c1''] init_manager"
      and ops = "[Connect None 1 ''c1'']" and ?self0.0 = init_manager and ws = 2 and c = "''c1''"
      and msg = "PStr ''hi''"
      and r = "fst (connect None 2 ''c1'' (run_registry [Connect None 1 ''c1''] init_manager))"
      and self' = "snd (connect None 2 ''c1'' (run_registry [Connect None 1 ''c1''] init_manager))"
      and r' = "fst (send_message None (PStr ''hi'') ''c1''
         (snd (connect None 2 ''c1'' (run_registry [Connect None 1 ''c1''] init_manager))))"
      and self'' = "snd (send_message None (PStr ''hi'') ''c1''
         (snd (connect None 2 ''c1'' (run_registry [Connect None 1 ''c1''] init_manager))))"]
  by (simp add: run_registry_def connect_def init_manager_def)

text \<open>
  C7, as the code has it. \<open>send_message\<close> returns \<open>None\<close>, never a boolean. For a client
  id with no registered handle it returns \<open>None\<close>, raises nothing and leaves the
  registry and the transport untouched, whatever \<open>send_json\<close> would have done. For a
  registered id it hands the message to the registered socket and returns \<open>None\<close>; an
  exception of \<open>send_json\<close> propagates.
\<close>

theorem send_message_returns_none:
  "(active_connections self c = None \<longrightarrow>
      send_message outcome msg c self = (Inr PNone, self))
   \<and> (active_connections self c = Some ws \<longrightarrow>
        send_message None msg c self
          = (Inr PNone, self\<lparr>delivered := delivered self @ [(ws, msg)]\<rparr>)
      \<and> send_message (Some e) msg c self = (Inl e, self))"
  by (simp add: send_message_def)

theorem send_message_returns_none_witness:
  "send_message None (PStr ''hi'') ''c9'' init_manager = (Inr PNone, init_manager)
   \<and> send_message None (PStr ''hi'') ''c1'' (init_manager\<lparr>active_connections := [''c1'' \<mapsto> 7]\<rparr>)
     = (Inr PNone,
        init_manager\<lparr>active_connections := [''c1'' \<mapsto> 7], delivered := [(7, PStr ''hi'')]\<rparr>)"
  using send_message_returns_none [where self = init_manager and c = "''c9''" and outcome = None
      and msg = "PStr ''hi''"]
    send_message_returns_none [where self = "init_manager\<lparr>active_connections := [''c1'' \<mapsto> 7]\<rparr>"
      and c = "''c1''" and ws = 7 and msg = "PStr ''hi''"]
  by (simp add: init_manager_def)

text \<open>
  C7 as the specification states it (the call returns the boolean \<open>False\<close> when the id
  is absent) fails: on the empty registry the call returns \<open>None\<close>.
\<close>

theorem send_message_false_counterexample:
  "fst (send_message None (PStr ''hi'') ''c1'' init_manager) \<noteq> Inr (PBool False)"
  by (simp add: send_message_def init_manager_def)

section \<open>The background session sweep: theorems\<close>

lemma cleanup_sessions_sequential: "one_at_a_time False (fst (cleanup_sessions i outs))"
proof (induction outs)
  case Nil
  then show ?case by simp
next
  case (Cons o1 outs)
  then show ?case by (cases o1) (auto split: prod.splits)
qed

lemma cleanup_sessions_never_logs: "errors_logged (fst (cleanup_sessions i outs)) = 0"
proof (induction outs)
  case Nil
  then show ?case by (simp add: errors_logged_def)
next
  case (Cons o1 outs)
  then show ?case by (cases o1) (auto simp: errors_logged_def split: prod.splits)
qed

lemma cleanup_sessions_all_ok:
  "cleanup_sessions i (replicate n None)
     = (concat (replicate n [SweepStarted, SweepFinished, Slept i]), Looping)"
  by (induction n) simp_all

lemma cleanup_sessions_first_failure:
  "cleanup_sessions i (replicate n None @ Some e # rest)
     = (concat (replicate n [SweepStarted, SweepFinished, Slept i]) @ [SweepStarted, SweepRaised e],
        Ended e)"
  by (induction n) simp_all

lemma sweeps_started_rounds:
  "sweeps_started (concat (replicate n [SweepStarted, SweepFinished, Slept i]) @ evs)
     = n + sweeps_started evs"
  by (induction n) (simp_all add: sweeps_started_def)

text \<open>
  C8, as the code has it. The loop runs one sweep at a time: in the events of every run
  no sweep starts while another is running. It logs nothing. As long as every call of
  \<open>cleanup_expired_sessions\<close> returns, each sweep is followed by a sleep of the fixed
  interval and the loop goes on: after \<open>n\<close> calls that returned, \<open>n\<close> sweeps have run and
  the task is still looping. The loop has no handler: the first call that raises ends the
  task with that exception, after \<open>n + 1\<close> sweeps when it is call number \<open>n + 1\<close>, and
  whatever later calls would have done does not matter.
\<close>

theorem sweep_loop_stops_at_first_failure:
  "one_at_a_time False (fst (cleanup_sessions i outs))
   \<and> errors_logged (fst (cleanup_sessions i outs)) = 0
   \<and> cleanup_sessions i (replicate n None)
       = (concat (replicate n [SweepStarted, SweepFinished, Slept i]), Looping)
   \<and> sweeps_started (fst (cleanup_sessions i (replicate n None))) = n
   \<and> cleanup_sessions i (replicate n None @ Some e # rest)
       = (concat (replicate n [SweepStarted, SweepFinished, Slept i])
            @ [SweepStarted, SweepRaised e], Ended e)
   \<and> sweeps_started (fst (cleanup_sessions i (replicate n None @ Some e # rest))) = n + 1"
proof -
  have "sweeps_started (fst (cleanup_sessions i (replicate n None))) = n"
    using sweeps_started_rounds [of n i "[]"]
    by (simp add: cleanup_sessions_all_ok sweeps_started_def)
  moreover have "sweeps_started (fst (cleanup_sessions i (replicate n None @ Some e # rest))) = n + 1"
    by (simp add: cleanup_sessions_first_failure sweeps_started_rounds) (simp add: sweeps_started_def)
  ultimately show ?thesis
    using cleanup_sessions_sequential cleanup_sessions_never_logs
      cleanup_sessions_all_ok cleanup_sessions_first_failure
    by blast
qed

text \<open>
  C8 as the specification states it (a failed sweep is logged and the next iteration
  still runs) fails: when the first sweep raises, the second never starts, nothing is
  logged and the task has ended with the exception.
\<close>

theorem sweep_loop_continues_counterexample:
  "sweeps_started (fst (cleanup_sessions 60 [Some (PyError ''ConnectionError''), None])) = 1
   \<and> errors_logged (fst (cleanup_sessions 60 [Some (PyError ''ConnectionError''), None])) = 0
   \<and> snd (cleanup_sessions 60 [Some (PyError ''ConnectionError''), None])
       = Ended (PyError ''ConnectionError'')"
  by (simp add: sweeps_started_def errors_logged_def)

section \<open>Double-precision subtraction: lemmas\<close>

lemma round_half_even_of_int: "round_half_even (of_int m) = m"
  by (simp add: round_half_even_def)

lemma double_ulp_small:
  assumes "1 \<le> \<bar>x\<bar>" and "\<bar>x\<bar> < 2 ^ 53"
  shows "\<exists>n. double_ulp x = 1 / 2 ^ n"
proof -
  have pos: "0 < \<bar>x\<bar>" using assms(1) by linarith
  have "0 \<le> log 2 \<bar>x\<bar>" using assms(1) by simp
  then have lo: "0 \<le> \<lfloor>log 2 \<bar>x\<bar>\<rfloor>" by simp
  have "\<bar>x\<bar> < 2 powr 53" using assms(2) by simp
  then have "log 2 \<bar>x\<bar> < 53" using pos by (simp add: log_less_iff)
  then have hi: "\<lfloor>log 2 \<bar>x\<bar>\<rfloor> \<le> 52" by linarith
  define e where "e = \<lfloor>log 2 \<bar>x\<bar>\<rfloor>"
  have "double_ulp x = 2 powi (e - 52)"
    using lo by (simp add: double_ulp_def e_def max_def)
  also have "\<dots> = 1 / 2 ^ nat (52 - e)"
    using hi by (auto simp: power_int_def e_def field_simps)
  finally show ?thesis by blast
qed

lemma to_double_small:
  assumes "x \<in> \<int>" and "\<bar>x\<bar> < 2 ^ 53"
  shows "to_double x = Finite x"
proof (cases "x = 0")
  case True
  then show ?thesis by (simp add: to_double_def)
next
  case False
  from assms(1) obtain m where m: "x = of_int m" by (auto elim: Ints_cases)
  with False have "m \<noteq> 0" by auto
  then have "1 \<le> \<bar>m\<bar>" by linarith
  then have one: "1 \<le> \<bar>x\<bar>" using m by (metis of_int_1_le_iff of_int_abs)
  from double_ulp_small [OF one assms(2)] obtain n where u: "double_ulp x = 1 / 2 ^ n"
    by blast
  have "x / double_ulp x = x * 2 ^ n"
    by (simp add: u)
  then have "x / double_ulp x = of_int (m * 2 ^ n)"
    by (simp add: m)
  then have r: "round_half_even (x / double_ulp x) = m * 2 ^ n"
    by (simp only: round_half_even_of_int)
  have "of_int (round_half_even (x / double_ulp x)) * double_ulp x
      = of_int (m * 2 ^ n) * double_ulp x"
    by (simp only: r)
  also have "\<dots> = of_int (m * 2 ^ n) * (1 / 2 ^ n)"
    by (simp only: u)
  also have "\<dots> = of_int m"
    by simp
  finally have y: "of_int (round_half_even (x / double_ulp x)) * double_ulp x = x"
    by (simp only: m)
  have "\<bar>x\<bar> < 2 ^ 1024"
    using assms(2) by (rule less_le_trans) simp
  with False y show ?thesis
    by (simp add: to_double_def)
qed

lemma double_ulp_at:
  assumes "2 ^ n \<le> \<bar>x\<bar>" and "\<bar>x\<bar> < 2 ^ Suc n"
  shows "double_ulp x = 2 powi (int n - 52)"
proof -
  have pos: "0 < \<bar>x\<bar>" using assms(1) by (smt (verit) zero_less_power)
  have "(2::real) powr real (Suc n) = 2 ^ Suc n" and "(2::real) powr real n = 2 ^ n"
    by (simp_all only: powr_realpow zero_less_numeral)
  then have "2 powr real_of_int (int n) \<le> \<bar>x\<bar> \<and> \<bar>x\<bar> < 2 powr real_of_int (int n + 1)"
    using assms by (simp add: add.commute)
  then have "\<lfloor>log 2 \<bar>x\<bar>\<rfloor> = int n"
    using floor_log_eq_powr_iff [of "\<bar>x\<bar>" 2 "int n"] pos by simp
  then show ?thesis by (simp add: double_ulp_def)
qed

lemma to_double_rounds: "to_double 99999999999999701 = Finite 99999999999999696"
proof -
  have u: "double_ulp 99999999999999701 = 16"
    using double_ulp_at [of 56 99999999999999701] by (simp add: power_int_def)
  show ?thesis
    by (simp add: to_double_def u round_half_even_def)
qed

lemma double_sub_rounds:
  "double_sub 100000000000000000 (PNum 99999999999999701) = Inr (Finite 304)"
  by (simp add: to_double_rounds to_double_small)

lemma double_sub_small:
  assumes "x \<in> \<int>" and "y \<in> \<int>" and "\<bar>y\<bar> < 2 ^ 53" and "\<bar>x - y\<bar> < 2 ^ 53"
  shows "double_sub x (PNum y) = Inr (Finite (x - y))"
  using assms by (simp add: to_double_small)

section \<open>Session validation: theorems\<close>

text \<open>
  C1. Whatever the session key: when the cookie is missing or empty, or
  \<open>validate_session\<close> raises (a failed store read), reports the session invalid (a
  deleted or never-created record), or returns data that is falsy, not a \<open>dict\<close>, or lacks
  the \<open>id\<close> field, then \<open>get_current_user\<close> returns \<open>None\<close> when \<open>return_none\<close> is set and
  raises the 401 \<open>HTTPException\<close> otherwise; no other exception leaves it.
\<close>

theorem get_current_user_rejects_invalid:
  assumes "ck ''session_id'' = None \<or> ck ''session_id'' = Some []
     \<or> (\<exists>sid. ck ''session_id'' = Some sid \<and>
          (case fst (validate_session D sid (snd w)) of
             Inl e \<Rightarrow> True
           | Inr (is_valid, d) \<Rightarrow> \<not> is_valid \<or> \<not> truthy d \<or> \<not> is_dict d \<or> \<not> has_key ''id'' d))"
  shows "fst (get_current_user cfg D ck return_none w)
       = (if return_none then Inr PNone else Inl (HTTPException 401 ''Authentication error''))"
  using assms
  by (auto simp: get_current_user_def get_current_user_try_def reject_def invoke_def
      split: option.splits prod.splits sum.splits if_splits)

theorem get_current_user_rejects_invalid_witness:
  "fst (get_current_user sample_config sample_deps [''session_id'' \<mapsto> ''never-created''] True
         ([], empty_backend)) = Inr PNone
   \<and> fst (get_current_user sample_config sample_deps [''session_id'' \<mapsto> ''never-created''] False
         ([], empty_backend)) = Inl (HTTPException 401 ''Authentication error'')"
  using get_current_user_rejects_invalid [where ck = "[''session_id'' \<mapsto> ''never-created'']"
      and D = sample_deps and w = "([], empty_backend)" and cfg = sample_config
      and return_none = True]
    get_current_user_rejects_invalid [where ck = "[''session_id'' \<mapsto> ''never-created'']"
      and D = sample_deps and w = "([], empty_backend)" and cfg = sample_config
      and return_none = False]
  by (simp add: sample_deps_def spec_validate_session_def live_session_def empty_backend_def)







section \<open>Sequencing: lemmas\<close>

lemma bind_eq_Inr:
  "bind m f w = (Inr r, w') \<longleftrightarrow> (\<exists>a w1. m w = (Inr a, w1) \<and> f a w1 = (Inr r, w'))"
  by (auto simp: bind_def split: prod.splits sum.splits)

lemma pure_result_eq: "pure_result r w = (x, w') \<longleftrightarrow> x = r \<and> w' = w"
  by (auto simp: pure_result_def)

lemma invoke_eq:
  "invoke n args f w = (x, w') \<longleftrightarrow>
     (\<exists>s'. f (snd w) = (x, s') \<and> w' = (fst w @ [Called n args], s'))"
  by (auto simp: invoke_def split: prod.splits)

section \<open>Login: theorems\<close>

lemma login_post_try_Inr:
  assumes "login_post_try cfg D req email password w = (Inr resp, w')"
  shows "(set_cookies resp = [] \<and> status_code resp = 400)
       \<or> (\<exists>session_id sdata s s'.
             set_session D session_id sdata (SESSION_LIFETIME cfg) s = (Inr True, s')
           \<and> last (fst w') = Called ''set_session''
                 [PStr session_id, sdata, PNum (SESSION_LIFETIME cfg)]
           \<and> map cookie_value (set_cookies resp) = [session_id]
           \<and> map cookie_key (set_cookies resp) = [''session_id'']
           \<and> status_code resp = 200)"
  using assms
  unfolding login_post_try_def
  apply (simp add: bind_eq_Inr pure_result_eq invoke_eq Let_def split: if_splits option.splits)
  apply (auto simp: JSONResponse_def log_error_def pure_result_eq invoke_eq bind_eq_Inr split: if_splits)
  done

lemma login_post_write_not_confirmed:
  assumes "client_host req = Some host"
    and "check_rate_limit D ''login'' host (snd w) = (Inr True, s1)"
    and "sign_in_with_password D email password s1 = (Inr auth_user, s2)"
    and "truthy auth_user"
    and "get_user_by_email D email s2 = (Inr found, s3)"
    and "(truthy found \<and> user = found \<and> s4 = s3)
         \<or> (\<not> truthy found \<and> create_user D email s3 = (Inr user, s4))"
    and "token_urlsafe D s4 = (Inr session_id, s5)"
    and "dict_get user ''id'' PNone = Inr uid"
    and "set_session D session_id
           (PDict [(''id'', PStr (py_str D uid)), (''email'', PStr email),
                   (''last_refresh'', PNum (time_time D s5))])
           (SESSION_LIFETIME cfg) s5 = (Inr False, s6)"
  shows "fst (login_post cfg D req email password w)
       = JSONResponse 400
           (PDict [(''success'', PBool False),
                   (''message'', PStr (exc_str D (HTTPException 500 ''Failed to create session'')))])"
  using assms
  by (auto simp: login_post_def login_post_try_def bind_def pure_result_def invoke_def Let_def)

lemma login_post_cases:
  "(set_cookies (fst (login_post cfg D req email password w)) = []
      \<and> status_code (fst (login_post cfg D req email password w)) = 400)
   \<or> (\<exists>session_id sdata s s'.
         set_session D session_id sdata (SESSION_LIFETIME cfg) s = (Inr True, s')
       \<and> last (fst (snd (login_post cfg D req email password w)))
           = Called ''set_session'' [PStr session_id, sdata, PNum (SESSION_LIFETIME cfg)]
       \<and> map cookie_value (set_cookies (fst (login_post cfg D req email password w))) = [session_id]
       \<and> map cookie_key (set_cookies (fst (login_post cfg D req email password w))) = [''session_id'']
       \<and> status_code (fst (login_post cfg D req email password w)) = 200)"
proof -
  obtain out w' where Pair: "login_post_try cfg D req email password w = (out, w')"
    by (metis surj_pair)
  show ?thesis
  proof (cases out)
    case (Inl e)
    with Pair show ?thesis by (simp add: login_post_def JSONResponse_def)
  next
    case (Inr resp)
    with Pair have "login_post cfg D req email password w = (resp, w')"
      by (simp add: login_post_def)
    with login_post_try_Inr [of cfg D req email password w resp w'] Pair Inr
    show ?thesis by simp
  qed
qed

text \<open>
  C9. A response of \<open>login_post\<close> sets a cookie only if \<open>set_session\<close> returned \<open>True\<close>
  for the session id the cookie carries, as the last call of the handler. If
  \<open>set_session\<close> never confirms a write, every login ends in a 400 response without a
  cookie. On the path that reaches \<open>set_session\<close> (rate limit passed, credentials accepted,
  user found or created, token generated), the result \<open>False\<close> gives the 400 response
  whose message is that of the exception "Failed to create session", without a cookie.
\<close>

theorem login_cookie_only_after_confirmed_write:
  "(set_cookies (fst (login_post cfg D req email password w)) \<noteq> [] \<longrightarrow>
      (\<exists>session_id sdata s s'.
         set_session D session_id sdata (SESSION_LIFETIME cfg) s = (Inr True, s')
       \<and> last (fst (snd (login_post cfg D req email password w)))
           = Called ''set_session'' [PStr session_id, sdata, PNum (SESSION_LIFETIME cfg)]
       \<and> map cookie_value (set_cookies (fst (login_post cfg D req email password w))) = [session_id]
       \<and> map cookie_key (set_cookies (fst (login_post cfg D req email password w))) = [''session_id'']
       \<and> status_code (fst (login_post cfg D req email password w)) = 200))
   \<and> ((\<forall>session_id sdata s. fst (set_session D session_id sdata (SESSION_LIFETIME cfg) s) \<noteq> Inr True) \<longrightarrow>
        set_cookies (fst (login_post cfg D req email password w)) = []
      \<and> status_code (fst (login_post cfg D req email password w)) = 400)
   \<and> (client_host req = Some host
      \<and> check_rate_limit D ''login'' host (snd w) = (Inr True, s1)
      \<and> sign_in_with_password D email password s1 = (Inr auth_user, s2)
      \<and> truthy auth_user
      \<and> get_user_by_email D email s2 = (Inr found, s3)
      \<and> ((truthy found \<and> user = found \<and> s4 = s3)
         \<or> (\<not> truthy found \<and> create_user D email s3 = (Inr user, s4)))
      \<and> token_urlsafe D s4 = (Inr sid, s5)
      \<and> dict_get user ''id'' PNone = Inr uid
      \<and> set_session D sid
           (PDict [(''id'', PStr (py_str D uid)), (''email'', PStr email),
                   (''last_refresh'', PNum (time_time D s5))])
           (SESSION_LIFETIME cfg) s5 = (Inr False, s6)
      \<longrightarrow> fst (login_post cfg D req email password w)
          = JSONResponse 400
              (PDict [(''success'', PBool False),
                      (''message'',
                       PStr (exc_str D (HTTPException 500 ''Failed to create session'')))]))"
proof (intro conjI impI)
  assume "set_cookies (fst (login_post cfg D req email password w)) \<noteq> []"
  with login_post_cases [of cfg D req email password w]
  show "\<exists>session_id sdata s s'.
         set_session D session_id sdata (SESSION_LIFETIME cfg) s = (Inr True, s')
       \<and> last (fst (snd (login_post cfg D req email password w)))
           = Called ''set_session'' [PStr session_id, sdata, PNum (SESSION_LIFETIME cfg)]
       \<and> map cookie_value (set_cookies (fst (login_post cfg D req email password w))) = [session_id]
       \<and> map cookie_key (set_cookies (fst (login_post cfg D req email password w))) = [''session_id'']
       \<and> status_code (fst (login_post cfg D req email password w)) = 200"
    by blast
next
  assume never: "\<forall>session_id sdata s. fst (set_session D session_id sdata (SESSION_LIFETIME cfg) s) \<noteq> Inr True"
  have no: "\<not> (\<exists>session_id sdata s s'.
         set_session D session_id sdata (SESSION_LIFETIME cfg) s = (Inr True, s'))"
  proof
    assume "\<exists>session_id sdata s s'.
         set_session D session_id sdata (SESSION_LIFETIME cfg) s = (Inr True, s')"
    then obtain a b s s' where "set_session D a b (SESSION_LIFETIME cfg) s = (Inr True, s')"
      by blast
    then have "fst (set_session D a b (SESSION_LIFETIME cfg) s) = Inr True" by simp
    with never show False by blast
  qed
  with login_post_cases [of cfg D req email password w]
  show "set_cookies (fst (login_post cfg D req email password w)) = []"
    and "status_code (fst (login_post cfg D req email password w)) = 400"
    by blast+
next
  assume "client_host req = Some host
      \<and> check_rate_limit D ''login'' host (snd w) = (Inr True, s1)
      \<and> sign_in_with_password D email password s1 = (Inr auth_user, s2)
      \<and> truthy auth_user
      \<and> get_user_by_email D email s2 = (Inr found, s3)
      \<and> ((truthy found \<and> user = found \<and> s4 = s3)
         \<or> (\<not> truthy found \<and> create_user D email s3 = (Inr user, s4)))
      \<and> token_urlsafe D s4 = (Inr sid, s5)
      \<and> dict_get user ''id'' PNone = Inr uid
      \<and> set_session D sid
           (PDict [(''id'', PStr (py_str D uid)), (''email'', PStr email),
                   (''last_refresh'', PNum (time_time D s5))])
           (SESSION_LIFETIME cfg) s5 = (Inr False, s6)"
  then show "fst (login_post cfg D req email password w)
          = JSONResponse 400
              (PDict [(''success'', PBool False),
                      (''message'',
                       PStr (exc_str D (HTTPException 500 ''Failed to create session'')))])"
    using login_post_write_not_confirmed
      [of req host D w s1 email password auth_user s2 found s3 user s4 sid s5 uid cfg s6]
    by blast
qed

theorem login_cookie_only_after_confirmed_write_witness:
  "fst (login_post sample_config (sample_deps\<lparr>check_rate_limit := spec_check_rate_limit True 5 60\<rparr>)
          \<lparr>cookies = Map.empty, client_host = Some ''10.0.0.1''\<rparr> ''a@b.c'' ''secret''
          ([], empty_backend\<lparr>store_up := False\<rparr>))
     = JSONResponse 400
         (PDict [(''success'', PBool False), (''message'', PStr ''Failed to create session'')])
   \<and> status_code (fst (login_post sample_config (sample_deps\<lparr>set_session := (\<lambda>k c l b. (Inr False, b))\<rparr>)
          \<lparr>cookies = Map.empty, client_host = Some ''10.0.0.1''\<rparr> ''a@b.c'' ''secret''
          ([], empty_backend))) = 400"
proof -
  let ?D = "sample_deps\<lparr>check_rate_limit := spec_check_rate_limit True 5 60\<rparr>"
  let ?D' = "sample_deps\<lparr>set_session := (\<lambda>k c l b. (Inr False, b))\<rparr>"
  let ?req = "\<lparr>cookies = Map.empty, client_host = Some ''10.0.0.1''\<rparr>"
  let ?b = "empty_backend\<lparr>store_up := False\<rparr>"
  let ?u = "PDict [(''id'', PStr ''u1''), (''email'', PStr ''a@b.c'')]"
  note T1 = login_cookie_only_after_confirmed_write [where cfg = sample_config and D = ?D
      and req = ?req and email = "''a@b.c''" and password = "''secret''" and w = "([], ?b)"
      and host = "''10.0.0.1''" and ?s1.0 = ?b and ?s2.0 = ?b and ?s3.0 = ?b and ?s4.0 = ?b
      and ?s5.0 = ?b and ?s6.0 = ?b and auth_user = "PDict [(''email'', PStr ''a@b.c'')]"
      and found = ?u and user = ?u and sid = "''token-1''" and uid = "PStr ''u1''"]
  note T2 = login_cookie_only_after_confirmed_write [where cfg = sample_config and D = ?D'
      and req = ?req and email = "''a@b.c''" and password = "''secret''" and w = "([], empty_backend)"
      and host = "''10.0.0.1''" and ?s1.0 = ?b and ?s2.0 = ?b and ?s3.0 = ?b and ?s4.0 = ?b
      and ?s5.0 = ?b and ?s6.0 = ?b and auth_user = "PDict [(''email'', PStr ''a@b.c'')]"
      and found = ?u and user = ?u and sid = "''token-1''" and uid = "PStr ''u1''"]
  have A: "fst (login_post sample_config ?D ?req ''a@b.c'' ''secret'' ([], ?b))
     = JSONResponse 400
         (PDict [(''success'', PBool False), (''message'', PStr ''Failed to create session'')])"
    using T1
    by (simp add: sample_deps_def sample_config_def empty_backend_def spec_check_rate_limit_def
        spec_set_session_def)
  have B: "status_code (fst (login_post sample_config ?D' ?req ''a@b.c'' ''secret'' ([], empty_backend))) = 400"
    using T2 by (simp add: sample_deps_def sample_config_def)
  from A B show ?thesis by blast
qed

section \<open>The history endpoints: theorems\<close>

lemma get_current_user_Inr:
  assumes "get_current_user cfg D ck False w = (Inr user, w1)"
  shows "truthy user \<and> is_dict user \<and> has_key ''id'' user"
  using assms
  by (auto simp: get_current_user_def get_current_user_try_def reject_def invoke_def
      split: option.splits prod.splits sum.splits if_splits)

lemma history_endpoint_hit:
  assumes "get_current_user cfg D (cookies req) False w = (Inr user, w1)"
    and "getitem user ''id'' = Inr uid"
    and "get_cache D (prefix @ py_str D uid) (snd w1) = (Inr cached, s2)"
    and "truthy cached"
  shows "history_endpoint prefix info qn q cfg D req w
       = (Inr (JSONResponse 200 (PDict [(''history'', cached)])),
          (fst w1 @ [Called ''get_cache'' [PStr (prefix @ py_str D uid)],
                     LogInfo (info @ py_str D uid)], s2))"
  using assms get_current_user_Inr [OF assms(1)]
  by (simp add: history_endpoint_def bind_def pure_result_def invoke_def log_info_def)

lemma history_endpoint_miss:
  assumes "get_current_user cfg D (cookies req) False w = (Inr user, w1)"
    and "getitem user ''id'' = Inr uid"
    and "get_cache D (prefix @ py_str D uid) (snd w1) = (Inr cached, s2)"
    and "\<not> truthy cached"
    and "uuid_UUID D uid = Inr u"
    and "q u s2 = (Inr history, s3)"
    and "set_cache D (prefix @ py_str D uid) history s3 = (Inr r, s4)"
  shows "history_endpoint prefix info qn q cfg D req w
       = (Inr (JSONResponse 200 (PDict [(''history'', history)])),
          (fst w1 @ [Called ''get_cache'' [PStr (prefix @ py_str D uid)],
                     Called qn [u],
                     Called ''set_cache'' [PStr (prefix @ py_str D uid), history]], s4))"
  using assms get_current_user_Inr [OF assms(1)]
  by (simp add: history_endpoint_def bind_def pure_result_def invoke_def log_info_def)

lemma history_endpoint_miss_returns:
  assumes "get_current_user cfg D (cookies req) False w = (Inr user, w1)"
    and "getitem user ''id'' = Inr uid"
    and "get_cache D (prefix @ py_str D uid) (snd w1) = (Inr cached, s2)"
    and "\<not> truthy cached"
    and "history_endpoint prefix info qn q cfg D req w = (Inr resp, w')"
  shows "\<exists>u history s3.
           uuid_UUID D uid = Inr u \<and> q u s2 = (Inr history, s3)
         \<and> resp = JSONResponse 200 (PDict [(''history'', history)])
         \<and> fst w' = fst w1 @ [Called ''get_cache'' [PStr (prefix @ py_str D uid)],
                     Called qn [u],
                     Called ''set_cache'' [PStr (prefix @ py_str D uid), history]]"
  using assms get_current_user_Inr [OF assms(1)]
  by (auto simp: history_endpoint_def bind_eq_Inr pure_result_eq invoke_eq)

text \<open>
  C10. In \<open>get_chat_history_endpoint\<close> and \<open>get_video_analysis_history_endpoint\<close>, for an
  authenticated user and the value \<open>cached\<close> that \<open>get_cache\<close> returns for the user's key:
  a truthy value is served as it is, with no call to the datastore; a falsy value
  (\<open>None\<close>, an empty list, ...) is a miss: when the datastore answers, the history it
  returns is written to the cache under the same key and served; and whenever the
  endpoint returns a response on a falsy value, that response carries a history read
  from the datastore and rewritten to the cache.
\<close>

theorem falsy_cached_history_is_a_miss:
  fixes D :: "'s deps"
  assumes auth: "get_current_user cfg D (cookies req) False w = (Inr user, w1)"
    and uid: "getitem user ''id'' = Inr uid"
    and which:
      "(endpoint = get_chat_history_endpoint \<and> prefix = ''chat_history:''
          \<and> qn = ''get_chat_history'' \<and> q = get_chat_history D
          \<and> info = ''Returning cached chat history for user '')
       \<or> (endpoint = get_video_analysis_history_endpoint \<and> prefix = ''video_history:''
          \<and> qn = ''get_video_analysis_history'' \<and> q = get_video_analysis_history D
          \<and> info = ''Returning cached video history for user '')"
    and cached: "get_cache D (prefix @ py_str D uid) (snd w1) = (Inr cached, s2)"
  shows "(truthy cached \<longrightarrow>
            endpoint cfg D req w
              = (Inr (JSONResponse 200 (PDict [(''history'', cached)])),
                 (fst w1 @ [Called ''get_cache'' [PStr (prefix @ py_str D uid)],
                            LogInfo (info @ py_str D uid)], s2)))
       \<and> (\<not> truthy cached \<and> uuid_UUID D uid = Inr u \<and> q u s2 = (Inr history, s3)
            \<and> set_cache D (prefix @ py_str D uid) history s3 = (Inr r, s4) \<longrightarrow>
            endpoint cfg D req w
              = (Inr (JSONResponse 200 (PDict [(''history'', history)])),
                 (fst w1 @ [Called ''get_cache'' [PStr (prefix @ py_str D uid)],
                            Called qn [u],
                            Called ''set_cache'' [PStr (prefix @ py_str D uid), history]], s4)))
       \<and> (\<not> truthy cached \<and> endpoint cfg D req w = (Inr resp, w') \<longrightarrow>
            (\<exists>u' history' s3'.
               uuid_UUID D uid = Inr u' \<and> q u' s2 = (Inr history', s3')
             \<and> resp = JSONResponse 200 (PDict [(''history'', history')])
             \<and> fst w' = fst w1 @ [Called ''get_cache'' [PStr (prefix @ py_str D uid)],
                            Called qn [u'],
                            Called ''set_cache'' [PStr (prefix @ py_str D uid), history']]))"
proof -
  have E: "endpoint cfg D req w = history_endpoint prefix info qn q cfg D req w"
    using which
    by (auto simp: get_chat_history_endpoint_def get_video_analysis_history_endpoint_def)
  show ?thesis
    unfolding E
    using history_endpoint_hit [OF auth uid cached, of info qn q]
      history_endpoint_miss [OF auth uid cached, of u q history s3 r s4 info qn]
      history_endpoint_miss_returns [OF auth uid cached, of info qn q resp w']
    by blast
qed


theorem falsy_cached_history_is_a_miss_witness:
  "get_chat_history_endpoint sample_config sample_deps
      \<lparr>cookies = [''session_id'' \<mapsto> ''token-1''], client_host = None\<rparr>
      ([], one_session\<lparr>clock := 100,
             cache := [''chat_history:u1'' \<mapsto> \<lparr>payload = PList [], cache_expires_at = 200\<rparr>]\<rparr>)
    = (Inr (JSONResponse 200 (PDict [(''history'', PList [PStr ''stored message''])])),
       ([Called ''validate_session'' [PStr ''token-1''],
         Called ''get_cache'' [PStr ''chat_history:u1''],
         Called ''get_chat_history'' [PStr ''u1''],
         Called ''set_cache'' [PStr ''chat_history:u1'', PList [PStr ''stored message'']]],
        one_session\<lparr>clock := 100,
          cache := [''chat_history:u1'' \<mapsto>
                      \<lparr>payload = PList [PStr ''stored message''], cache_expires_at = 400\<rparr>]\<rparr>))"
proof -
  let ?req = "\<lparr>cookies = [''session_id'' \<mapsto> ''token-1''], client_host = None\<rparr>"
  let ?b = "one_session\<lparr>clock := 100,
             cache := [''chat_history:u1'' \<mapsto> \<lparr>payload = PList [], cache_expires_at = 200\<rparr>]\<rparr>"
  let ?b' = "one_session\<lparr>clock := 100,
          cache := [''chat_history:u1'' \<mapsto>
                      \<lparr>payload = PList [PStr ''stored message''], cache_expires_at = 400\<rparr>]\<rparr>"
  let ?user = "PDict [(''id'', PStr ''u1''), (''email'', PStr ''a@b.c''), (''last_refresh'', PNum 0)]"
  have auth: "get_current_user sample_config sample_deps (cookies ?req) False ([], ?b)
      = (Inr ?user, ([Called ''validate_session'' [PStr ''token-1'']], ?b))"
    by (simp add: get_current_user_def get_current_user_try_def invoke_def sample_deps_def
        sample_config_def spec_validate_session_def live_session_def one_session_def
        empty_backend_def to_double_small)
  have uid: "getitem ?user ''id'' = Inr (PStr ''u1'')" by simp
  have key: "py_str sample_deps (PStr ''u1'') = ''u1''" by (simp add: sample_deps_def)
  have cached: "get_cache sample_deps (''chat_history:'' @ py_str sample_deps (PStr ''u1''))
       (snd ([Called ''validate_session'' [PStr ''token-1'']], ?b)) = (Inr (PList []), ?b)"
    by (simp add: sample_deps_def spec_get_cache_def one_session_def empty_backend_def)
  have miss: "\<not> truthy (PList []) \<and> uuid_UUID sample_deps (PStr ''u1'') = Inr (PStr ''u1'')
      \<and> get_chat_history sample_deps (PStr ''u1'') ?b = (Inr (PList [PStr ''stored message'']), ?b)
      \<and> set_cache sample_deps (''chat_history:'' @ py_str sample_deps (PStr ''u1''))
           (PList [PStr ''stored message'']) ?b = (Inr (PBool True), ?b')"
    by (simp add: sample_deps_def spec_set_cache_def one_session_def empty_backend_def)
  note T = falsy_cached_history_is_a_miss [where endpoint = get_chat_history_endpoint
      and prefix = "''chat_history:''" and qn = "''get_chat_history''"
      and q = "get_chat_history sample_deps"
      and info = "''Returning cached chat history for user ''"
      and u = "PStr ''u1''" and history = "PList [PStr ''stored message'']"
      and ?s3.0 = ?b and r = "PBool True" and ?s4.0 = ?b'
      and resp = "JSONResponse 200 (PDict [(''history'', PList [PStr ''stored message''])])"
      and w' = "([], ?b')", OF auth uid _ cached]
  from T miss key show ?thesis by simp
qed

section \<open>Cache invalidation: theorems\<close>

lemma snoc4_eq_snoc3:
  "(xs @ [z, a, b, c] = tr @ [a', b', c']) \<longleftrightarrow> (tr = xs @ [z] \<and> a = a' \<and> b = b' \<and> c = c')"
  by auto

lemma send_message_try_Inr:
  assumes "send_message_try D user message videos w1 = (Inr resp, w')"
    and "getitem user ''id'' = Inr uid"
  shows "\<exists>s r tr u u' rt.
           invalidate_cache D (''chat_history:'' @ py_str D uid) s = (Inr r, snd w')
         \<and> fst w' = tr @ [Called ''insert_chat_message'' [u, PStr message, PStr ''user''],
                           Called ''insert_chat_message'' [u', rt, PStr ''bot''],
                           Called ''invalidate_cache'' [PStr (''chat_history:'' @ py_str D uid)]]
         \<and> resp = JSONResponse 200 (PDict [(''response'', rt)])"
  using assms
  unfolding send_message_try_def
  apply (clarsimp simp: bind_eq_Inr pure_result_eq invoke_eq snoc4_eq_snoc3)
  apply blast
  done

lemma send_message_endpoint_Inr:
  assumes "get_current_user cfg D (cookies req) False w = (Inr user, w1)"
    and "send_message_endpoint cfg D req message videos w = (Inr resp, w')"
  shows "send_message_try D user message videos w1 = (Inr resp, w')"
  using assms
  by (auto simp: send_message_endpoint_def split: prod.splits sum.splits)

lemma spec_invalidate_then_get:
  assumes "spec_invalidate_cache k b = (Inr r, b')"
  shows "cache b' k = None" and "fst (spec_get_cache k (b'\<lparr>clock := t\<rparr>)) = Inr PNone"
    and "fst (spec_get_cache k b') = Inr PNone"
  using assms
  by (auto simp: spec_invalidate_cache_def spec_get_cache_def split: if_splits)

lemma spec_invalidate_fails_loudly:
  assumes "spec_invalidate_cache k b = (Inl e, b')"
  shows "b' = b \<and> e = PyError ''StoreUnavailable''"
  using assms by (auto simp: spec_invalidate_cache_def split: if_splits)

lemma spec_set_then_get:
  assumes "spec_set_cache ttl k v b = (Inr (PBool True), b')" and "0 < ttl"
  shows "fst (spec_get_cache k b') = Inr v"
  using assms
  by (auto simp: spec_set_cache_def spec_get_cache_def split: if_splits)

text \<open>
  C3. With the cache manager of the specification: once \<open>invalidate\<close> of a key has
  returned, the key is gone, and a \<open>get\<close> of it, at that moment or at any later time,
  by any caller, returns absent; after a later \<open>set\<close> it returns the value written then.
  An \<open>invalidate\<close> that fails raises \<open>StoreUnavailable\<close> and changes nothing. In the
  endpoint \<open>send_message\<close>, with this \<open>invalidate_cache\<close> behind it: whenever the
  endpoint returns its response, the last three calls it made are the two
  \<open>insert_chat_message\<close> (the user's message, then the bot's) and the \<open>invalidate_cache\<close>
  of the user's \<open>chat_history:\<close> key, and a \<open>get\<close> of that key in the state it leaves
  returns absent.
\<close>

theorem invalidate_then_get_is_absent:
  fixes D :: "backend deps"
  shows
  "(spec_invalidate_cache k b = (Inr r, b') \<longrightarrow>
      cache b' k = None \<and> fst (spec_get_cache k b') = Inr PNone
      \<and> (\<forall>t. fst (spec_get_cache k (b'\<lparr>clock := t\<rparr>)) = Inr PNone))
   \<and> (spec_invalidate_cache k b = (Inl e, b') \<longrightarrow> b' = b \<and> e = PyError ''StoreUnavailable'')
   \<and> (spec_invalidate_cache k b = (Inr r, b')
        \<and> spec_set_cache ttl k v b' = (Inr (PBool True), b'') \<and> 0 < ttl \<longrightarrow>
        fst (spec_get_cache k b'') = Inr v)
   \<and> (invalidate_cache D = spec_invalidate_cache
        \<and> get_current_user cfg D (cookies req) False w = (Inr user, w1)
        \<and> getitem user ''id'' = Inr uid
        \<and> send_message_endpoint cfg D req message videos w = (Inr resp, w') \<longrightarrow>
        fst (spec_get_cache (''chat_history:'' @ py_str D uid) (snd w')) = Inr PNone
        \<and> (\<exists>tr u u' rt.
              fst w' = tr @ [Called ''insert_chat_message'' [u, PStr message, PStr ''user''],
                             Called ''insert_chat_message'' [u', rt, PStr ''bot''],
                             Called ''invalidate_cache''
                               [PStr (''chat_history:'' @ py_str D uid)]]
            \<and> resp = JSONResponse 200 (PDict [(''response'', rt)])))"
proof (intro conjI impI)
  assume "spec_invalidate_cache k b = (Inr r, b')"
  then show "cache b' k = None" "fst (spec_get_cache k b') = Inr PNone"
    "\<forall>t. fst (spec_get_cache k (b'\<lparr>clock := t\<rparr>)) = Inr PNone"
    using spec_invalidate_then_get [of k b r b'] by blast+
next
  assume "spec_invalidate_cache k b = (Inl e, b')"
  then show "b' = b" "e = PyError ''StoreUnavailable''"
    using spec_invalidate_fails_loudly [of k b e b'] by blast+
next
  assume "spec_invalidate_cache k b = (Inr r, b')
        \<and> spec_set_cache ttl k v b' = (Inr (PBool True), b'') \<and> 0 < ttl"
  then show "fst (spec_get_cache k b'') = Inr v"
    using spec_set_then_get [of ttl k v b' b''] by blast
next
  assume H: "invalidate_cache D = spec_invalidate_cache
        \<and> get_current_user cfg D (cookies req) False w = (Inr user, w1)
        \<and> getitem user ''id'' = Inr uid
        \<and> send_message_endpoint cfg D req message videos w = (Inr resp, w')"
  then have "send_message_try D user message videos w1 = (Inr resp, w')"
    using send_message_endpoint_Inr by blast
  with H obtain s r0 tr u u' rt where
    inv: "invalidate_cache D (''chat_history:'' @ py_str D uid) s = (Inr r0, snd w')"
    and tr: "fst w' = tr @ [Called ''insert_chat_message'' [u, PStr message, PStr ''user''],
                           Called ''insert_chat_message'' [u', rt, PStr ''bot''],
                           Called ''invalidate_cache'' [PStr (''chat_history:'' @ py_str D uid)]]"
    and resp: "resp = JSONResponse 200 (PDict [(''response'', rt)])"
    using send_message_try_Inr [of D user message videos w1 resp w' uid] by blast
  from inv H have "spec_invalidate_cache (''chat_history:'' @ py_str D uid) s = (Inr r0, snd w')"
    by simp
  then show "fst (spec_get_cache (''chat_history:'' @ py_str D uid) (snd w')) = Inr PNone"
    using spec_invalidate_then_get(3) by blast
  from tr resp show "\<exists>tr u u' rt.
              fst w' = tr @ [Called ''insert_chat_message'' [u, PStr message, PStr ''user''],
                             Called ''insert_chat_message'' [u', rt, PStr ''bot''],
                             Called ''invalidate_cache''
                               [PStr (''chat_history:'' @ py_str D uid)]]
            \<and> resp = JSONResponse 200 (PDict [(''response'', rt)])"
    by blast
qed


theorem invalidate_then_get_is_absent_witness:
  "fst (spec_get_cache ''chat_history:u1''
          (snd (snd (send_message_endpoint sample_config sample_deps
             \<lparr>cookies = [''session_id'' \<mapsto> ''token-1''], client_host = None\<rparr> ''hello''
             (Some [\<lparr>filename = PStr ''clip.mp4''\<rparr>])
             ([], one_session\<lparr>clock := 100,
                    cache := [''chat_history:u1'' \<mapsto>
                       \<lparr>payload = PList [PStr ''old''], cache_expires_at = 200\<rparr>]\<rparr>)))))
     = Inr PNone
   \<and> spec_invalidate_cache ''k'' (empty_backend\<lparr>store_up := False\<rparr>)
       = (Inl (PyError ''StoreUnavailable''), empty_backend\<lparr>store_up := False\<rparr>)"
proof -
  let ?req = "\<lparr>cookies = [''session_id'' \<mapsto> ''token-1''], client_host = None\<rparr>"
  let ?b = "one_session\<lparr>clock := 100,
                    cache := [''chat_history:u1'' \<mapsto>
                       \<lparr>payload = PList [PStr ''old''], cache_expires_at = 200\<rparr>]\<rparr>"
  let ?b' = "?b\<lparr>cache := (cache ?b)(''chat_history:u1'' := None)\<rparr>"
  let ?b'' = "?b'\<lparr>cache := (cache ?b')(''chat_history:u1'' \<mapsto>
                       \<lparr>payload = PList [PStr ''new''], cache_expires_at = 400\<rparr>)\<rparr>"
  let ?down = "empty_backend\<lparr>store_up := False\<rparr>"
  let ?user = "PDict [(''id'', PStr ''u1''), (''email'', PStr ''a@b.c''), (''last_refresh'', PNum 0)]"
  let ?run = "send_message_endpoint sample_config sample_deps ?req ''hello''
                (Some [\<lparr>filename = PStr ''clip.mp4''\<rparr>]) ([], ?b)"
  let ?resp = "JSONResponse 200 (PDict [(''response'', PStr ''reply'')])"
  have auth: "get_current_user sample_config sample_deps (cookies ?req) False ([], ?b)
      = (Inr ?user, ([Called ''validate_session'' [PStr ''token-1'']], ?b))"
    by (simp add: get_current_user_def get_current_user_try_def invoke_def sample_deps_def
        sample_config_def spec_validate_session_def live_session_def one_session_def
        empty_backend_def to_double_small)
  have "fst (send_message_try sample_deps ?user ''hello'' (Some [\<lparr>filename = PStr ''clip.mp4''\<rparr>])
              ([Called ''validate_session'' [PStr ''token-1'']], ?b)) = Inr ?resp"
    by (simp add: send_message_try_def process_video_def
        bind_def pure_result_def invoke_def sample_deps_def spec_enqueue_task_def
        spec_invalidate_cache_def one_session_def empty_backend_def)
  with auth have "fst ?run = Inr ?resp"
    by (auto simp: send_message_endpoint_def split: prod.splits sum.splits)
  then have run: "?run = (Inr ?resp, snd ?run)"
    by (metis prod.collapse)
  have inv: "spec_invalidate_cache ''chat_history:u1'' ?b = (Inr (PBool True), ?b')"
    by (simp add: spec_invalidate_cache_def one_session_def empty_backend_def)
  have set: "spec_set_cache 300 ''chat_history:u1'' (PList [PStr ''new'']) ?b'
      = (Inr (PBool True), ?b'')"
    by (simp add: spec_set_cache_def one_session_def empty_backend_def)
  have down: "spec_invalidate_cache ''k'' ?down = (Inl (PyError ''StoreUnavailable''), ?down)"
    by (simp add: spec_invalidate_cache_def empty_backend_def)
  have D: "invalidate_cache sample_deps = spec_invalidate_cache"
    and key: "py_str sample_deps (PStr ''u1'') = ''u1''"
    by (simp_all add: sample_deps_def)
  have uid: "getitem ?user ''id'' = Inr (PStr ''u1'')" by simp
  note T1 = invalidate_then_get_is_absent [where k = "''chat_history:u1''" and b = ?b
      and r = "PBool True" and b' = ?b' and e = "PyError ''StoreUnavailable''"
      and ttl = 300 and v = "PList [PStr ''new'']" and b'' = ?b''
      and D = sample_deps and cfg = sample_config and req = ?req and w = "([], ?b)"
      and user = ?user and ?w1.0 = "([Called ''validate_session'' [PStr ''token-1'']], ?b)"
      and uid = "PStr ''u1''" and message = "''hello''"
      and videos = "Some [\<lparr>filename = PStr ''clip.mp4''\<rparr>]" and resp = ?resp
      and w' = "snd ?run"]
  note T2 = invalidate_then_get_is_absent [where k = "''k''" and b = ?down
      and r = "PBool True" and b' = ?down and e = "PyError ''StoreUnavailable''"
      and ttl = 300 and v = "PList [PStr ''new'']" and b'' = ?b''
      and D = sample_deps and cfg = sample_config and req = ?req and w = "([], ?b)"
      and user = ?user and ?w1.0 = "([Called ''validate_session'' [PStr ''token-1'']], ?b)"
      and uid = "PStr ''u1''" and message = "''hello''"
      and videos = "Some [\<lparr>filename = PStr ''clip.mp4''\<rparr>]" and resp = ?resp
      and w' = "snd ?run"]
  have "fst (spec_get_cache (''chat_history:'' @ py_str sample_deps (PStr ''u1'')) (snd (snd ?run)))
      = Inr PNone"
    using T1 T2 D auth uid run inv set down by blast
  then show ?thesis
    using down key by simp
qed

section \<open>Rate limiter: theorems\<close>

lemma same_window_before_expiry:
  assumes "0 < W" and "window_index t W = window_index t0 W"
  shows "t < t0 + W"
proof -
  have "t / W < of_int \<lfloor>t / W\<rfloor> + 1" by linarith
  moreover have "of_int \<lfloor>t0 / W\<rfloor> \<le> t0 / W" by simp
  ultimately have "t / W < t0 / W + 1"
    using assms(2) unfolding window_index_def by linarith
  then have "t / W < (t0 + W) / W"
    using assms(1) by (simp add: add_divide_distrib)
  then show ?thesis
    using assms(1) by (simp add: divide_less_cancel)
qed

lemma check_step:
  assumes "0 < W" and "counted W (action, client, k) n b" and "window_index t W = k"
    and "spec_check_rate_limit P N W action client (b\<lparr>clock := t\<rparr>) = (r, b')"
  shows "r = Inr (Suc n \<le> N) \<and> counted W (action, client, k) (Suc n) b'
       \<and> (\<forall>key'. key' \<noteq> (action, client, k) \<longrightarrow> counters b' key' = counters b key')"
proof (cases "counters b (action, client, k)")
  case None
  with assms show ?thesis
    by (auto simp: counted_def spec_check_rate_limit_def Let_def split: if_splits)
next
  case (Some c)
  with assms(2) have c: "hits c = n" "0 < n"
    "window_index (counter_expires_at c - W) W = k"
    by (simp_all add: counted_def)
  have "t < (counter_expires_at c - W) + W"
    using same_window_before_expiry [OF assms(1), of t "counter_expires_at c - W"] c(3) assms(3)
    by simp
  then have live: "t < counter_expires_at c" by simp
  with assms Some c show ?thesis
    by (auto simp: counted_def spec_check_rate_limit_def Let_def split: if_splits)
qed

lemma run_checks_in_window:
  assumes "0 < W" and "\<forall>t\<in>set ts. window_index t W = k"
    and "counted W (action, client, k) n b"
    and "run_checks P N W action client ts b = (rs, b')"
  shows "rs = map (\<lambda>i. Inr (n + Suc i \<le> N)) [0..<length ts]
       \<and> counted W (action, client, k) (n + length ts) b'
       \<and> (\<forall>key'. key' \<noteq> (action, client, k) \<longrightarrow> counters b' key' = counters b key')"
  using assms(2-)
proof (induction ts arbitrary: n b rs b')
  case Nil
  then show ?case by simp
next
  case (Cons t ts)
  obtain r b1 where step: "spec_check_rate_limit P N W action client (b\<lparr>clock := t\<rparr>) = (r, b1)"
    by (metis surj_pair)
  obtain rs1 b2 where rest: "run_checks P N W action client ts b1 = (rs1, b2)"
    by (metis surj_pair)
  from Cons.prems(3) step rest have rs: "rs = r # rs1" and b': "b' = b2" by simp_all
  from Cons.prems(1) have t: "window_index t W = k" and ts: "\<forall>t\<in>set ts. window_index t W = k"
    by simp_all
  from check_step [OF assms(1) Cons.prems(2) t step]
  have S: "r = Inr (Suc n \<le> N)" "counted W (action, client, k) (Suc n) b1"
    "\<forall>key'. key' \<noteq> (action, client, k) \<longrightarrow> counters b1 key' = counters b key'"
    by blast+
  from Cons.IH [OF ts S(2) rest]
  have IH: "rs1 = map (\<lambda>i. Inr (Suc n + Suc i \<le> N)) [0..<length ts]"
    "counted W (action, client, k) (Suc n + length ts) b2"
    "\<forall>key'. key' \<noteq> (action, client, k) \<longrightarrow> counters b2 key' = counters b1 key'"
    by blast+
  have "rs = map (\<lambda>i. Inr (n + Suc i \<le> N)) [0..<length (t # ts)]"
    using rs S(1) IH(1) by (simp add: map_upt_Suc del: upt_Suc)
  moreover have "counted W (action, client, k) (n + length (t # ts)) b'"
    using IH(2) b' by simp
  moreover have "\<forall>key'. key' \<noteq> (action, client, k) \<longrightarrow> counters b' key' = counters b key'"
    using IH(3) S(3) b' by simp
  ultimately show ?case by blast
qed

text \<open>
  C4. With the rate limiter of the specification, for every action, client, threshold
  \<open>N\<close> and window length \<open>W\<close> (a positive length of time): starting from a window whose
  counter does not exist yet, each check in that window increments the counter (after
  the checks it holds their number), and check number \<open>i\<close> is allowed iff \<open>i \<le> N\<close>; so of
  \<open>N + 1\<close> checks in one window the first \<open>N\<close> are allowed and the last is rejected. The
  first check in a later window starts a new counter: it gets the answer that the first
  check of the earlier window got, so it is allowed again, for every threshold that
  allows a check at all (\<open>N \<ge> 1\<close>).
\<close>

theorem fixed_window_rate_limit:
  assumes "0 < W" and "store_up b"
    and "counters b (action, client, k) = None"
    and "\<forall>t\<in>set ts. window_index t W = k"
    and "run_checks P N W action client ts b = (rs, b')"
  shows "rs = map (\<lambda>i. Inr (Suc i \<le> N)) [0..<length ts]
       \<and> (ts \<noteq> [] \<longrightarrow> (\<exists>c. counters b' (action, client, k) = Some c \<and> hits c = length ts))
       \<and> (length ts = N + 1 \<longrightarrow> last rs = Inr False \<and> butlast rs = replicate N (Inr True))
       \<and> (window_index t' W \<noteq> k
            \<and> counters b (action, client, window_index t' W) = None \<longrightarrow>
            fst (spec_check_rate_limit P N W action client (b'\<lparr>clock := t'\<rparr>)) = Inr (1 \<le> N)
          \<and> (ts \<noteq> [] \<longrightarrow>
                fst (spec_check_rate_limit P N W action client (b'\<lparr>clock := t'\<rparr>)) = hd rs)
          \<and> (0 < N \<longrightarrow>
                fst (spec_check_rate_limit P N W action client (b'\<lparr>clock := t'\<rparr>)) = Inr True))"
proof -
  have c0: "counted W (action, client, k) 0 b"
    using assms(2,3) by (simp add: counted_def)
  from run_checks_in_window [OF assms(1) assms(4) c0 assms(5)]
  have rs: "rs = map (\<lambda>i. Inr (Suc i \<le> N)) [0..<length ts]"
    and cnt: "counted W (action, client, k) (length ts) b'"
    and other: "\<forall>key'. key' \<noteq> (action, client, k) \<longrightarrow> counters b' key' = counters b key'"
    by simp_all
  have A: "ts \<noteq> [] \<longrightarrow> (\<exists>c. counters b' (action, client, k) = Some c \<and> hits c = length ts)"
    using cnt by (auto simp: counted_def split: option.splits)
  have B: "length ts = N + 1 \<longrightarrow> last rs = Inr False \<and> butlast rs = replicate N (Inr True)"
  proof
    assume len: "length ts = N + 1"
    then have "rs = map (\<lambda>i. Inr (Suc i \<le> N)) [0..<N] @ [Inr False]"
      using rs by simp
    moreover have "map (\<lambda>i. Inr (Suc i \<le> N)) [0..<N] = replicate N (Inr True :: exn + bool)"
      by (rule nth_equalityI) simp_all
    ultimately show "last rs = Inr False \<and> butlast rs = replicate N (Inr True)"
      by simp
  qed
  have C: "window_index t' W \<noteq> k
            \<and> counters b (action, client, window_index t' W) = None \<longrightarrow>
            fst (spec_check_rate_limit P N W action client (b'\<lparr>clock := t'\<rparr>)) = Inr (1 \<le> N)
          \<and> (ts \<noteq> [] \<longrightarrow>
                fst (spec_check_rate_limit P N W action client (b'\<lparr>clock := t'\<rparr>)) = hd rs)
          \<and> (0 < N \<longrightarrow>
                fst (spec_check_rate_limit P N W action client (b'\<lparr>clock := t'\<rparr>)) = Inr True)"
  proof
    assume H: "window_index t' W \<noteq> k
            \<and> counters b (action, client, window_index t' W) = None"
    then have "counters b' (action, client, window_index t' W) = None"
      using other by simp
    moreover have "store_up b'" using cnt by (simp add: counted_def)
    ultimately have first: "fst (spec_check_rate_limit P N W action client (b'\<lparr>clock := t'\<rparr>))
        = Inr (1 \<le> N)"
      using assms(1) by (simp add: spec_check_rate_limit_def Let_def)
    have "hd rs = Inr (1 \<le> N)" if "ts \<noteq> []"
    proof -
      from that obtain t ts' where "ts = t # ts'" by (cases ts) auto
      then show ?thesis using rs by (simp add: upt_rec)
    qed
    with first show "fst (spec_check_rate_limit P N W action client (b'\<lparr>clock := t'\<rparr>))
          = Inr (1 \<le> N)
          \<and> (ts \<noteq> [] \<longrightarrow>
                fst (spec_check_rate_limit P N W action client (b'\<lparr>clock := t'\<rparr>)) = hd rs)
          \<and> (0 < N \<longrightarrow>
                fst (spec_check_rate_limit P N W action client (b'\<lparr>clock := t'\<rparr>)) = Inr True)"
      by auto
  qed
  from rs A B C show ?thesis by blast
qed

theorem fixed_window_rate_limit_witness:
  "fst (run_checks False 2 60 ''login'' ''10.0.0.1'' [10, 20, 30] empty_backend)
     = [Inr True, Inr True, Inr False]
   \<and> fst (spec_check_rate_limit False 2 60 ''login'' ''10.0.0.1''
            ((snd (run_checks False 2 60 ''login'' ''10.0.0.1'' [10, 20, 30] empty_backend))
               \<lparr>clock := 70\<rparr>)) = Inr True"
proof -
  let ?run = "run_checks False 2 60 ''login'' ''10.0.0.1'' [10, 20, 30] empty_backend"
  have W: "(0::real) < 60" by simp
  have up: "store_up empty_backend"
    and fresh: "counters empty_backend (''login'', ''10.0.0.1'', 0) = None"
    and fresh': "counters empty_backend (''login'', ''10.0.0.1'', window_index 70 60) = None"
    by (simp_all add: empty_backend_def)
  have win: "\<forall>t\<in>set [10, 20, 30]. window_index t 60 = 0"
    and next_win: "window_index 70 60 \<noteq> 0"
    by (simp_all add: window_index_def)
  have run: "?run = (fst ?run, snd ?run)" by simp
  have N: "(0::nat) < 2" by simp
  from fixed_window_rate_limit [OF W up fresh win run, of 70] N next_win fresh'
  have "fst ?run = map (\<lambda>i. Inr (Suc i \<le> 2)) [0..<length [10, 20, 30 :: real]]"
    and "fst (spec_check_rate_limit False 2 60 ''login'' ''10.0.0.1'' ((snd ?run)\<lparr>clock := 70\<rparr>))
         = Inr True"
    by blast+
  then show ?thesis by (simp add: upt_rec)
qed

section \<open>Task queue: theorems\<close>

lemma enqueue_keeps_queue_ok:
  assumes "queue_ok b"
  shows "queue_ok (snd (spec_enqueue_task ttype pl prio b))"
  using assms
  by (auto simp: queue_ok_def spec_enqueue_task_def sorted_wrt_append less_Suc_eq)

lemma enqueue_all_keeps_queue_ok: "queue_ok b \<Longrightarrow> queue_ok (enqueue_all reqs b)"
  by (induction reqs arbitrary: b) (auto simp: enqueue_keeps_queue_ok)

lemma empty_backend_queue_ok: "queue_ok empty_backend"
  by (simp add: queue_ok_def empty_backend_def)

lemma queue_ok_sorted:
  assumes "queue_ok b"
  shows "sorted_wrt (\<lambda>x y. key_less (task_key x) (task_key y)) (retrieval_order b)"
proof -
  have bucket: "sorted_wrt (\<lambda>x y. key_less (task_key x) (task_key y)) (queues b p)" for p
  proof (rule sorted_wrt_mono_rel [of _ "\<lambda>x y. task_seq x < task_seq y"])
    show "sorted_wrt (\<lambda>x y. task_seq x < task_seq y) (queues b p)"
      using assms by (simp add: queue_ok_def)
  next
    fix x y
    assume "x \<in> set (queues b p)" "y \<in> set (queues b p)" "task_seq x < task_seq y"
    then show "key_less (task_key x) (task_key y)"
      using assms by (simp add: queue_ok_def key_less_def task_key_def)
  qed
  have prio: "t \<in> set (queues b p) \<Longrightarrow> task_priority t = p" for t p
    using assms by (simp add: queue_ok_def)
  have cross: "key_less (task_key x) (task_key y)"
    if "x \<in> set (queues b p)" "y \<in> set (queues b q)" "priority_rank p < priority_rank q"
    for x y p q
    using that prio [of x p] prio [of y q] by (simp add: key_less_def task_key_def)
  show ?thesis
    unfolding retrieval_order_def
    by (auto simp: sorted_wrt_append bucket intro!: cross)
qed

lemma store_up_enqueue: "store_up (snd (spec_enqueue_task ttype pl prio b)) = store_up b"
  by (simp add: spec_enqueue_task_def)

lemma next_seq_enqueue:
  "store_up b \<Longrightarrow> next_seq (snd (spec_enqueue_task ttype pl prio b)) = Suc (next_seq b)"
  by (simp add: spec_enqueue_task_def)

lemma mset_enqueue:
  assumes "store_up b"
  shows "mset (retrieval_order (snd (spec_enqueue_task ttype pl prio b)))
       = mset (retrieval_order b) + {#mk_task (next_seq b, ttype, pl, prio)#}"
  using assms
  by (cases prio) (simp_all add: spec_enqueue_task_def retrieval_order_def mk_task_def)

lemma mset_enqueue_all:
  assumes "store_up b"
  shows "mset (retrieval_order (enqueue_all reqs b))
       = mset (retrieval_order b) + mset (map mk_task (enumerate (next_seq b) reqs))"
  using assms
proof (induction reqs arbitrary: b)
  case Nil
  then show ?case by simp
next
  case (Cons req reqs)
  obtain ttype pl prio where req: "req = (ttype, pl, prio)"
    by (cases req) auto
  let ?b = "snd (spec_enqueue_task ttype pl prio b)"
  have up: "store_up ?b" using Cons.prems by (simp add: store_up_enqueue)
  have "mset (retrieval_order (enqueue_all (req # reqs) b))
      = mset (retrieval_order ?b) + mset (map mk_task (enumerate (next_seq ?b) reqs))"
    using Cons.IH [OF up] req by simp
  then show ?case
    using Cons.prems req by (simp add: mset_enqueue next_seq_enqueue)
qed

text \<open>
  C5. With the task queue of the specification: after any sequence of enqueues on the
  empty queue (the store being up, so that each of them succeeds), the retrieval order
  is strictly increasing in (priority rank, sequence number), that is by priority first
  and first-in first-out within a priority, and it holds exactly the enqueued tasks,
  request number \<open>i\<close> with sequence number \<open>i\<close>. Enqueuing priorities low, high, medium and
  then high gives the retrieval order high, high, medium, low: the tasks numbered 1, 3,
  2, 0.
\<close>

theorem retrieval_is_priority_then_fifo:
  "sorted_wrt (\<lambda>x y. key_less (task_key x) (task_key y))
     (retrieval_order (enqueue_all reqs empty_backend))
   \<and> mset (retrieval_order (enqueue_all reqs empty_backend))
       = mset (map mk_task (enumerate 0 reqs))
   \<and> map (\<lambda>t. (task_priority t, task_seq t))
       (retrieval_order
          (enqueue_all [(ty4, pl4, HIGH)]
             (enqueue_all [(ty1, pl1, LOW), (ty2, pl2, HIGH), (ty3, pl3, MEDIUM)] empty_backend)))
       = [(HIGH, 1), (HIGH, 3), (MEDIUM, 2), (LOW, 0)]"
proof -
  have "sorted_wrt (\<lambda>x y. key_less (task_key x) (task_key y))
     (retrieval_order (enqueue_all reqs empty_backend))"
    by (rule queue_ok_sorted) (rule enqueue_all_keeps_queue_ok, rule empty_backend_queue_ok)
  moreover have "mset (retrieval_order (enqueue_all reqs empty_backend))
       = mset (map mk_task (enumerate 0 reqs))"
    using mset_enqueue_all [of empty_backend reqs]
    by (simp add: empty_backend_def retrieval_order_def)
  moreover have "map (\<lambda>t. (task_priority t, task_seq t))
       (retrieval_order
          (enqueue_all [(ty4, pl4, HIGH)]
             (enqueue_all [(ty1, pl1, LOW), (ty2, pl2, HIGH), (ty3, pl3, MEDIUM)] empty_backend)))
       = [(HIGH, 1), (HIGH, 3), (MEDIUM, 2), (LOW, 0)]"
    by (simp add: spec_enqueue_task_def empty_backend_def retrieval_order_def)
  ultimately show ?thesis by blast
qed

end
